theory Spec2Isabelle
  imports Complex_Main "HOL-Library.Sublist"
begin

section \<open>JavaScript values\<close>

text \<open>
  The controller receives its input as parsed JSON (\<open>express.json()\<close>) and tests it only
  for truthiness and for membership in the allow-list, so the model carries the values
  themselves. A number is the value of the double after parsing; a JSON literal may
  overflow to an infinity, which is truthy like every nonzero number.
\<close>

datatype js_number = Finite rat | Infinity bool | NaN

datatype js_value =
    JUndefined
  | JNull
  | JBool bool
  | JNum js_number
  | JStr string
  | JArr "js_value list"
  | JObj "(string \<times> js_value) list"

text \<open>The operand test of \<open>!x\<close>: \<open>undefined\<close>, \<open>null\<close>, \<open>false\<close>, zero, NaN and the empty
  string are falsy, everything else is truthy.\<close>

fun truthy :: "js_value \<Rightarrow> bool" where
  "truthy JUndefined = False"
| "truthy JNull = False"
| "truthy (JBool b) = b"
| "truthy (JNum n) = (case n of Finite q \<Rightarrow> q \<noteq> 0 | Infinity _ \<Rightarrow> True | NaN \<Rightarrow> False)"
| "truthy (JStr s) = (s \<noteq> [])"
| "truthy (JArr _) = True"
| "truthy (JObj _) = True"

text \<open>Property access \<open>obj.k\<close> on a parsed object: a missing key reads as \<open>undefined\<close>.\<close>

definition field :: "(string \<times> js_value) list \<Rightarrow> string \<Rightarrow> js_value" where
  "field obj k = (case map_of obj k of None \<Rightarrow> JUndefined | Some v \<Rightarrow> v)"

text \<open>Destructuring with a default, \<open>const { model = d } = obj\<close>: the default is taken
  only when the property is \<open>undefined\<close> (a \<open>null\<close> stays \<open>null\<close>).\<close>

definition default_to :: "js_value \<Rightarrow> js_value \<Rightarrow> js_value" where
  "default_to v d = (if v = JUndefined then d else v)"

text \<open>\<open>Array.prototype.join\<close> on an array of strings.\<close>

fun join :: "string \<Rightarrow> string list \<Rightarrow> string" where
  "join sep [] = []"
| "join sep [x] = x"
| "join sep (x # y # ys) = x @ sep @ join sep (y # ys)"

text \<open>\<open>Buffer.toString('base64')\<close>: three bytes give four digits, the last group is
  padded with \<open>=\<close>. A \<open>char\<close> is one byte.\<close>

definition base64_alphabet :: string where
  "base64_alphabet = ''ABCDEFGHIJKLMNOPQRSTUVWXYZabcdefghijklmnopqrstuvwxyz0123456789+/''"

definition base64_digit :: "nat \<Rightarrow> char" where
  "base64_digit n = base64_alphabet ! (n mod 64)"

fun base64 :: "string \<Rightarrow> string" where
  "base64 [] = []"
| "base64 [a] =
     (let x = (of_char a :: nat)
      in [base64_digit (x div 4), base64_digit (x mod 4 * 16), CHR ''='', CHR ''=''])"
| "base64 [a, b] =
     (let x = (of_char a :: nat); y = (of_char b :: nat)
      in [base64_digit (x div 4), base64_digit (x mod 4 * 16 + y div 16),
          base64_digit (y mod 16 * 4), CHR ''=''])"
| "base64 (a # b # c # bs) =
     (let x = (of_char a :: nat); y = (of_char b :: nat); z = (of_char c :: nat)
      in [base64_digit (x div 4), base64_digit (x mod 4 * 16 + y div 16),
          base64_digit (y mod 16 * 4 + z div 64), base64_digit (z mod 64)] @ base64 bs)"

text \<open>A thrown value. The controller reads nothing of an error but its \<open>message\<close>, so
  the class of the error (\<open>Error\<close>, \<open>TypeError\<close>, a system error) is not kept apart.\<close>

datatype js_error = Error string

fun message :: "js_error \<Rightarrow> string" where
  "message (Error m) = m"

text \<open>The outcome of an awaited promise.\<close>

datatype 'a promise = Resolved 'a | Rejected js_error

section \<open>The provider, the transcript source and the file system\<close>

record chat_message =
  role :: string
  content :: js_value

text \<open>The argument of \<open>openrouter.chat.completions.create\<close>.\<close>

record chat_request =
  model :: js_value
  messages :: "chat_message list"

text \<open>The provider's answer: \<open>completion.choices[i].message.content\<close>, a string or \<open>null\<close>.\<close>

datatype choice = Choice chat_message

fun choice_message :: "choice \<Rightarrow> chat_message" where
  "choice_message (Choice m) = m"

record completion =
  choices :: "choice list"

text \<open>One segment of \<open>YoutubeTranscript.fetchTranscript\<close>; \<open>seg_text\<close> is its \<open>text\<close>.\<close>

record segment =
  seg_text :: string
  duration :: rat
  offset :: rat

text \<open>Paths are lists of components; \<open>path.join\<close> resolves \<open>..\<close> and \<open>.\<close> segments.\<close>

type_synonym path = "string list"

fun path_join :: "path \<Rightarrow> string list \<Rightarrow> path" where
  "path_join p [] = p"
| "path_join p (s # ss) =
     (if s = ''..'' then path_join (butlast p) ss
      else if s = ''.'' then path_join p ss
      else path_join (p @ [s]) ss)"

datatype node = File string | Dir

text \<open>
  \<open>req.file\<close> as the upload middleware leaves it, and the request: \<open>req_file\<close> is
  \<open>req.file\<close>, absent when nothing was uploaded; \<open>body\<close> is \<open>req.body\<close>, the parsed
  object, or \<open>None\<close> for \<open>undefined\<close> when the request carried no body that a parser
  accepted.
\<close>

record uploaded_file =
  path :: path
  mimetype :: string

record request =
  body :: "(string \<times> js_value) list option"
  req_file :: "uploaded_file option"

text \<open>
  The external collaborators of one request: the provider call, the transcript fetch,
  the outcome of streaming a file of a given content to the caller (\<open>None\<close> when the
  transfer completes), and the controller's \<open>__dirname\<close>.
\<close>

record env =
  create :: "chat_request \<Rightarrow> completion promise"
  fetchTranscript :: "js_value \<Rightarrow> segment list option promise"
  transfer :: "string \<Rightarrow> js_error option"
  dirname :: path

text \<open>
  The state a handler acts on: the file system, the lines written with
  \<open>console.error\<close> (text and error), the provider calls and transcript fetches sent so
  far, the invocations of \<open>callAI\<close> with their arguments, and the exceptions thrown
  in a callback after the handler has answered, which nothing catches.
\<close>

record world =
  fs :: "path \<Rightarrow> node option"
  console :: "(string \<times> js_error) list"
  outbound :: "chat_request list"
  fetched :: "js_value list"
  dispatched :: "(js_value \<times> chat_message list) list"
  uncaught :: "js_error list"

text \<open>
  What the caller gets: a JSON payload with a status, a completed attachment, a transfer
  that broke off, or, when an exception leaves the handler itself, nothing from the
  handler: its promise rejects, and the framework's error handler answers with its
  status 500.
\<close>

datatype response =
    Json nat js_value
  | Attachment string string
  | Incomplete js_error
  | Unhandled js_error

fun status :: "response \<Rightarrow> nat option" where
  "status (Json n _) = Some n"
| "status (Attachment _ _) = Some 200"
| "status (Incomplete _) = None"
| "status (Unhandled _) = Some 500"

subsection \<open>File operations\<close>

definition existsSync :: "world \<Rightarrow> path \<Rightarrow> bool" where
  "existsSync w p = (fs w p \<noteq> None)"

definition mkdirSync :: "path \<Rightarrow> world \<Rightarrow> js_error + world" where
  "mkdirSync p w =
     (if fs w p \<noteq> None then Inl (Error ''EEXIST: file already exists, mkdir'')
      else case fs w (butlast p) of
             None \<Rightarrow> Inl (Error ''ENOENT: no such file or directory, mkdir'')
           | Some (File _) \<Rightarrow> Inl (Error ''ENOTDIR: not a directory, mkdir'')
           | Some Dir \<Rightarrow> Inr (w\<lparr>fs := (fs w)(p \<mapsto> Dir)\<rparr>))"

definition writeFileSync :: "path \<Rightarrow> js_value \<Rightarrow> world \<Rightarrow> js_error + world" where
  "writeFileSync p data w =
     (case data of
        JStr s \<Rightarrow>
          (case fs w (butlast p) of
             None \<Rightarrow> Inl (Error ''ENOENT: no such file or directory, open'')
           | Some (File _) \<Rightarrow> Inl (Error ''ENOTDIR: not a directory, open'')
           | Some Dir \<Rightarrow>
               (case fs w p of
                  Some Dir \<Rightarrow> Inl (Error ''EISDIR: illegal operation on a directory, open'')
                | _ \<Rightarrow> Inr (w\<lparr>fs := (fs w)(p \<mapsto> File s)\<rparr>)))
      | _ \<Rightarrow> Inl (Error ''The data argument must be of type string or an instance of Buffer, TypedArray, or DataView.''))"

definition readFileSync :: "path \<Rightarrow> world \<Rightarrow> js_error + string" where
  "readFileSync p w =
     (case fs w p of
        Some (File c) \<Rightarrow> Inr c
      | Some Dir \<Rightarrow> Inl (Error ''EISDIR: illegal operation on a directory, read'')
      | None \<Rightarrow> Inl (Error ''ENOENT: no such file or directory, open''))"

definition unlinkSync :: "path \<Rightarrow> world \<Rightarrow> js_error + world" where
  "unlinkSync p w =
     (case fs w p of
        Some (File _) \<Rightarrow> Inr (w\<lparr>fs := (fs w)(p := None)\<rparr>)
      | Some Dir \<Rightarrow> Inl (Error ''EPERM: operation not permitted, unlink'')
      | None \<Rightarrow> Inl (Error ''ENOENT: no such file or directory, unlink''))"

definition console_error :: "string \<Rightarrow> js_error \<Rightarrow> world \<Rightarrow> world" where
  "console_error txt e w = w\<lparr>console := console w @ [(txt, e)]\<rparr>"

section \<open>The controller\<close>

definition AVAILABLE_MODELS :: "string list" where
  "AVAILABLE_MODELS =
     [''microsoft/phi-4-reasoning-plus:free'',
      ''thudm/glm-z1-32b:free'',
      ''deepseek/deepseek-chat-v3-0324:free'',
      ''deepseek/deepseek-chat:free'',
      ''qwen/qwen3-32b:free'']"

text \<open>\<open>AVAILABLE_MODELS.includes(v)\<close>: the elements are strings, so only an equal string
  is found.\<close>

definition array_includes :: "string list \<Rightarrow> js_value \<Rightarrow> bool" where
  "array_includes xs v = (case v of JStr s \<Rightarrow> s \<in> set xs | _ \<Rightarrow> False)"

definition invalid_model_error :: js_error where
  "invalid_model_error = Error (''Invalid model. Choose from: '' @ join '', '' AVAILABLE_MODELS)"

definition upstream_failure :: js_error where
  "upstream_failure = Error ''Failed to get response from AI model.''"

text \<open>The \<open>catch\<close> block of \<open>callAI\<close>; \<open>m\<close> is the model, a string once the allow-list
  test has passed.\<close>

definition callAI_catch :: "string \<Rightarrow> js_error \<Rightarrow> world \<Rightarrow> (js_error + js_value) \<times> world" where
  "callAI_catch m e w =
     (Inl upstream_failure, console_error (''Error calling AI model '' @ m @ '':'') e w)"

text \<open>
  \<open>callAI\<close>. The invocation is recorded in \<open>dispatched\<close>, the provider call in
  \<open>outbound\<close>. Reading \<open>choices[0].message\<close> of an empty \<open>choices\<close> throws a TypeError
  inside the \<open>try\<close>, which the \<open>catch\<close> handles like a rejection. A value that passed
  the allow-list test is a string; the case on the model only names that string for the
  template literal of the log line, and its last branch is never taken.
\<close>

definition callAI :: "env \<Rightarrow> js_value \<Rightarrow> chat_message list \<Rightarrow> world \<Rightarrow> (js_error + js_value) \<times> world" where
  "callAI ev mdl msgs w0 =
     (let w = w0\<lparr>dispatched := dispatched w0 @ [(mdl, msgs)]\<rparr> in
      if \<not> array_includes AVAILABLE_MODELS mdl then (Inl invalid_model_error, w)
      else case mdl of
        JStr m \<Rightarrow>
          (let rq = \<lparr>model = mdl, messages = msgs\<rparr>;
               w1 = w\<lparr>outbound := outbound w @ [rq]\<rparr>
           in case create ev rq of
                Resolved c \<Rightarrow>
                  (case choices c of
                     ch # _ \<Rightarrow> (Inr (content (choice_message ch)), w1)
                   | [] \<Rightarrow> callAI_catch m
                            (Error ''Cannot read properties of undefined (reading 'message')'') w1)
              | Rejected e \<Rightarrow> callAI_catch m e w1)
      | _ \<Rightarrow> (Inl invalid_model_error, w))"

subsection \<open>Responses\<close>

text \<open>\<open>res.status(n).json({ error: msg })\<close> and \<open>res.json({ k: v })\<close>.\<close>

definition error_json :: "nat \<Rightarrow> string \<Rightarrow> response" where
  "error_json n msg = Json n (JObj [(''error'', JStr msg)])"

definition ok_json :: "string \<Rightarrow> js_value \<Rightarrow> response" where
  "ok_json k v = Json 200 (JObj [(k, v)])"

text \<open>
  \<open>const { k, model = d } = req.body\<close> stands before the \<open>try\<close> of every handler that
  reads the body: on an \<open>undefined\<close> body it throws a TypeError naming the first
  property, and the exception leaves the handler.
\<close>

definition cannot_destructure :: "string \<Rightarrow> js_error" where
  "cannot_destructure k =
     Error (''Cannot destructure property '' @ [CHR 0x27] @ k @ [CHR 0x27]
            @ '' of 'req.body' as it is undefined.'')"

definition system_user :: "string \<Rightarrow> js_value \<Rightarrow> chat_message list" where
  "system_user systemPrompt u =
     [\<lparr>role = ''system'', content = JStr systemPrompt\<rparr>, \<lparr>role = ''user'', content = u\<rparr>]"

subsection \<open>1. Generate code\<close>

definition generateCode_systemPrompt :: string where
  "generateCode_systemPrompt = ''You are an expert web developer. Generate a complete, self-contained HTML file with embedded CSS and JavaScript based on the user's prompt. The HTML, CSS, and JS should be in a single index.html file. Do not use any external libraries unless specified. Your response should ONLY be the raw code for the index.html file, starting with <!DOCTYPE html> and ending with </html>. Do not include any explanations or markdown formatting like ```html.''"

text \<open>
  \<open>res.download(filePath, name, cb)\<close> followed by its callback: the file is read and
  streamed, the callback logs a transfer error, and then unlinks the file in either
  case. An exception of \<open>unlinkSync\<close> inside the callback is caught by nobody.
\<close>

definition download :: "env \<Rightarrow> path \<Rightarrow> string \<Rightarrow> world \<Rightarrow> response \<times> world" where
  "download ev filePath name w =
     (let err = (case readFileSync filePath w of
                   Inl e \<Rightarrow> Some e
                 | Inr c \<Rightarrow> transfer ev c);
          resp = (case readFileSync filePath w of
                    Inl e \<Rightarrow> Incomplete e
                  | Inr c \<Rightarrow> (case transfer ev c of None \<Rightarrow> Attachment name c
                                                  | Some e \<Rightarrow> Incomplete e));
          w1 = (case err of None \<Rightarrow> w | Some e \<Rightarrow> console_error ''Error downloading file:'' e w)
      in case unlinkSync filePath w1 of
           Inl e \<Rightarrow> (resp, w1\<lparr>uncaught := uncaught w1 @ [e]\<rparr>)
         | Inr w2 \<Rightarrow> (resp, w2))"

definition generateCode :: "env \<Rightarrow> request \<Rightarrow> world \<Rightarrow> response \<times> world" where
  "generateCode ev req w =
     (case body req of
        None \<Rightarrow> (Unhandled (cannot_destructure ''prompt''), w)
      | Some b \<Rightarrow>
         (let prompt = field b ''prompt'';
              mdl = default_to (field b ''model'') (JStr ''deepseek/deepseek-chat:free'')
          in if \<not> truthy prompt then (error_json 400 ''Prompt is required.'', w)
             else case callAI ev mdl (system_user generateCode_systemPrompt prompt) w of
               (Inl e, w1) \<Rightarrow> (error_json 500 (message e), w1)
             | (Inr code, w1) \<Rightarrow>
                 (let dir = path_join (dirname ev) [''..'', ''generated_code''] in
                  case (if \<not> existsSync w1 dir then mkdirSync dir w1 else Inr w1) of
                    Inl e \<Rightarrow> (error_json 500 (message e), w1)
                  | Inr w2 \<Rightarrow>
                      (let filePath = path_join dir [''index.html''] in
                       case writeFileSync filePath code w2 of
                         Inl e \<Rightarrow> (error_json 500 (message e), w2)
                       | Inr w3 \<Rightarrow> download ev filePath ''index.html'' w3))))"

subsection \<open>2. Math reasoning\<close>

definition getMathReasoning_systemPrompt :: string where
  "getMathReasoning_systemPrompt = ''You are a math tutor. Solve the following problem and provide a clear, step-by-step reasoning for your solution. Format the final answer clearly.''"

definition getMathReasoning :: "env \<Rightarrow> request \<Rightarrow> world \<Rightarrow> response \<times> world" where
  "getMathReasoning ev req w =
     (case body req of
        None \<Rightarrow> (Unhandled (cannot_destructure ''prompt''), w)
      | Some b \<Rightarrow>
         (let prompt = field b ''prompt'';
              mdl = default_to (field b ''model'') (JStr ''microsoft/phi-4-reasoning-plus:free'')
          in if \<not> truthy prompt then (error_json 400 ''Math problem prompt is required.'', w)
             else case callAI ev mdl (system_user getMathReasoning_systemPrompt prompt) w of
               (Inl e, w1) \<Rightarrow> (error_json 500 (message e), w1)
             | (Inr reasoning, w1) \<Rightarrow> (ok_json ''reasoning'' reasoning, w1)))"

subsection \<open>3. Coding task\<close>

definition solveCodingTask_systemPrompt :: string where
  "solveCodingTask_systemPrompt = ''You are an expert programmer. Solve the following coding task. Provide a detailed explanation of your approach, the code solution, and an analysis of its time and space complexity. Use markdown for code blocks.''"

definition solveCodingTask :: "env \<Rightarrow> request \<Rightarrow> world \<Rightarrow> response \<times> world" where
  "solveCodingTask ev req w =
     (case body req of
        None \<Rightarrow> (Unhandled (cannot_destructure ''prompt''), w)
      | Some b \<Rightarrow>
         (let prompt = field b ''prompt'';
              mdl = default_to (field b ''model'') (JStr ''thudm/glm-z1-32b:free'')
          in if \<not> truthy prompt then (error_json 400 ''Coding task prompt is required.'', w)
             else case callAI ev mdl (system_user solveCodingTask_systemPrompt prompt) w of
               (Inl e, w1) \<Rightarrow> (error_json 500 (message e), w1)
             | (Inr solution, w1) \<Rightarrow> (ok_json ''solution'' solution, w1)))"

subsection \<open>4. YouTube summarizer\<close>

definition summarizeYoutubeVideo_systemPrompt :: string where
  "summarizeYoutubeVideo_systemPrompt = ''You are a helpful assistant. Summarize the following video transcript into a concise overview with the main key points listed as bullet points.''"

text \<open>The \<open>catch\<close> block: \<open>console.error(error)\<close> and a fixed message.\<close>

definition summarizeYoutubeVideo_catch :: "js_error \<Rightarrow> world \<Rightarrow> response \<times> world" where
  "summarizeYoutubeVideo_catch e w =
     (error_json 500 ''Failed to summarize YouTube video. Please ensure the URL is correct and the video has a transcript.'',
      console_error [] e w)"

definition no_transcript :: response where
  "no_transcript = error_json 404 ''Could not fetch transcript for this video. It might have transcripts disabled.''"

definition summarizeYoutubeVideo :: "env \<Rightarrow> request \<Rightarrow> world \<Rightarrow> response \<times> world" where
  "summarizeYoutubeVideo ev req w =
     (case body req of
        None \<Rightarrow> (Unhandled (cannot_destructure ''url''), w)
      | Some b \<Rightarrow>
         (let url = field b ''url'';
              mdl = default_to (field b ''model'') (JStr ''deepseek/deepseek-chat-v3-0324:free'')
          in if \<not> truthy url then (error_json 400 ''YouTube URL is required.'', w)
             else
               (let w1 = w\<lparr>fetched := fetched w @ [url]\<rparr> in
                case fetchTranscript ev url of
                  Rejected e \<Rightarrow> summarizeYoutubeVideo_catch e w1
                | Resolved None \<Rightarrow> (no_transcript, w1)
                | Resolved (Some transcript) \<Rightarrow>
                    if length transcript = 0 then (no_transcript, w1)
                    else
                      (let transcriptText = join '' '' (map seg_text transcript) in
                       case callAI ev mdl
                              (system_user summarizeYoutubeVideo_systemPrompt
                                 (JStr (''Transcript: '' @ transcriptText))) w1 of
                         (Inl e, w2) \<Rightarrow> summarizeYoutubeVideo_catch e w2
                       | (Inr summary, w2) \<Rightarrow> (ok_json ''summary'' summary, w2)))))"

subsection \<open>5. General chat\<close>

definition handleChat_systemPrompt :: string where
  "handleChat_systemPrompt = ''You are Anjali, a friendly and helpful AI assistant. Engage in a natural and supportive conversation.''"

definition handleChat :: "env \<Rightarrow> request \<Rightarrow> world \<Rightarrow> response \<times> world" where
  "handleChat ev req w =
     (case body req of
        None \<Rightarrow> (Unhandled (cannot_destructure ''prompt''), w)
      | Some b \<Rightarrow>
         (let prompt = field b ''prompt'';
              mdl = default_to (field b ''model'') (JStr ''qwen/qwen3-32b:free'')
          in if \<not> truthy prompt then (error_json 400 ''Prompt is required for chat.'', w)
             else case callAI ev mdl (system_user handleChat_systemPrompt prompt) w of
               (Inl e, w1) \<Rightarrow> (error_json 500 (message e), w1)
             | (Inr r, w1) \<Rightarrow> (ok_json ''response'' r, w1)))"

subsection \<open>6. Image to text\<close>

definition imageToText_catch :: "js_error \<Rightarrow> world \<Rightarrow> response \<times> world" where
  "imageToText_catch e w =
     (error_json 500 ''Failed to process image.'', console_error ''Image processing error:'' e w)"

definition vision_content :: "string \<Rightarrow> js_value" where
  "vision_content dataUrl =
     JArr [JObj [(''type'', JStr ''image_url''), (''image_url'', JObj [(''url'', JStr dataUrl)])],
           JObj [(''type'', JStr ''text''), (''text'', JStr ''Describe this image in detail.'')]]"

definition imageToText :: "env \<Rightarrow> request \<Rightarrow> world \<Rightarrow> response \<times> world" where
  "imageToText ev req w =
     (case req_file req of
        None \<Rightarrow> (error_json 400 ''Image file is required.'', w)
      | Some f \<Rightarrow>
          (let imagePath = path f in
           case readFileSync imagePath w of
             Inl e \<Rightarrow> imageToText_catch e w
           | Inr imageBuffer \<Rightarrow>
               (let imageBase64 = base64 imageBuffer;
                    dataUrl = ''data:'' @ mimetype f @ '';base64,'' @ imageBase64;
                    rq = \<lparr>model = JStr ''qwen/qwen3-32b:free'',
                          messages = [\<lparr>role = ''user'', content = vision_content dataUrl\<rparr>]\<rparr>;
                    w1 = w\<lparr>outbound := outbound w @ [rq]\<rparr>
                in case create ev rq of
                     Rejected e \<Rightarrow> imageToText_catch e w1
                   | Resolved r \<Rightarrow>
                       (case unlinkSync imagePath w1 of
                          Inl e \<Rightarrow> imageToText_catch e w1
                        | Inr w2 \<Rightarrow>
                            (case choices r of
                               ch # _ \<Rightarrow> (ok_json ''description'' (content (choice_message ch)), w2)
                             | [] \<Rightarrow> imageToText_catch
                                      (Error ''Cannot read properties of undefined (reading 'message')'') w2)))))"

subsection \<open>7. Explainer\<close>

definition getExplainer_systemPrompt :: string where
  "getExplainer_systemPrompt = ''You are an expert educator who simplifies complex topics. Explain the following topic in a simple, easy-to-understand way. Include analogies and \"learning hacks\" to make it memorable.''"

definition getExplainer :: "env \<Rightarrow> request \<Rightarrow> world \<Rightarrow> response \<times> world" where
  "getExplainer ev req w =
     (case body req of
        None \<Rightarrow> (Unhandled (cannot_destructure ''topic''), w)
      | Some b \<Rightarrow>
         (let topic = field b ''topic'';
              mdl = default_to (field b ''model'') (JStr ''deepseek/deepseek-chat:free'')
          in if \<not> truthy topic then (error_json 400 ''Topic is required.'', w)
             else case callAI ev mdl (system_user getExplainer_systemPrompt topic) w of
               (Inl e, w1) \<Rightarrow> (error_json 500 (message e), w1)
             | (Inr explanation, w1) \<Rightarrow> (ok_json ''explanation'' explanation, w1)))"

section \<open>Observations on a run\<close>

text \<open>The provider calls and the \<open>callAI\<close> invocations a handler added to a world.\<close>

definition new_calls :: "world \<Rightarrow> world \<Rightarrow> chat_request list" where
  "new_calls w w' = drop (length (outbound w)) (outbound w')"

definition new_dispatched :: "world \<Rightarrow> world \<Rightarrow> (js_value \<times> chat_message list) list" where
  "new_dispatched w w' = drop (length (dispatched w)) (dispatched w')"

text \<open>A message list of exactly one system message followed by exactly one user message.\<close>

definition system_then_user :: "chat_request \<Rightarrow> bool" where
  "system_then_user rq =
     (case messages rq of
        [m1, m2] \<Rightarrow> role m1 = ''system'' \<and> role m2 = ''user''
      | _ \<Rightarrow> False)"

text \<open>A message list of exactly one user message whose content is an image reference
  part followed by a text part.\<close>

definition vision_parts :: "js_value \<Rightarrow> bool" where
  "vision_parts v =
     (case v of
        JArr [JObj p1, JObj p2] \<Rightarrow>
          map_of p1 ''type'' = Some (JStr ''image_url'') \<and> map_of p2 ''type'' = Some (JStr ''text'')
      | _ \<Rightarrow> False)"

definition one_user_with_parts :: "chat_request \<Rightarrow> bool" where
  "one_user_with_parts rq =
     (case messages rq of
        [m] \<Rightarrow> role m = ''user'' \<and> vision_parts (content m)
      | _ \<Rightarrow> False)"

text \<open>A required field that is absent from a parsed body or is the empty string.\<close>

definition absent_or_empty :: "(string \<times> js_value) list \<Rightarrow> string \<Rightarrow> bool" where
  "absent_or_empty b k = (map_of b k = None \<or> map_of b k = Some (JStr []))"

text \<open>A request that names no value for a field: there is no body, or the body has no
  such key.\<close>

definition omitted :: "request \<Rightarrow> string \<Rightarrow> bool" where
  "omitted req k = (case body req of None \<Rightarrow> True | Some b \<Rightarrow> map_of b k = None)"

text \<open>The directory and the file of the generated artifact, as \<open>generateCode\<close> computes
  them from \<open>__dirname\<close>.\<close>

definition artifact_dir :: "env \<Rightarrow> path" where
  "artifact_dir ev = path_join (dirname ev) [''..'', ''generated_code'']"


section \<open>Sample collaborators and requests\<close>

definition sample_completion :: completion where
  "sample_completion =
     \<lparr>choices = [Choice \<lparr>role = ''assistant'', content = JStr ''<!DOCTYPE html><html></html>''\<rparr>]\<rparr>"

definition sample_transcript :: "segment list" where
  "sample_transcript =
     [\<lparr>seg_text = ''Hello'', duration = 2, offset = 0\<rparr>,
      \<lparr>seg_text = ''world'', duration = 3, offset = 2\<rparr>]"

definition sample_env :: env where
  "sample_env =
     \<lparr>create = (\<lambda>rq. Resolved sample_completion),
      fetchTranscript = (\<lambda>u. Resolved (Some sample_transcript)),
      transfer = (\<lambda>c. None),
      dirname = [''srv'', ''app'', ''controllers'']\<rparr>"

definition provider_down_env :: env where
  "provider_down_env = sample_env\<lparr>create := (\<lambda>rq. Rejected (Error ''401 No auth credentials found''))\<rparr>"

definition no_transcript_env :: env where
  "no_transcript_env = sample_env\<lparr>fetchTranscript := (\<lambda>u. Resolved (Some []))\<rparr>"

definition broken_transfer_env :: env where
  "broken_transfer_env = sample_env\<lparr>transfer := (\<lambda>c. Some (Error ''Request aborted''))\<rparr>"

definition sample_upload :: uploaded_file where
  "sample_upload = \<lparr>path = [''uploads'', ''1700000000000.png''], mimetype = ''image/png''\<rparr>"

definition sample_world :: world where
  "sample_world =
     \<lparr>fs = [[''srv'', ''app''] \<mapsto> Dir, [''uploads''] \<mapsto> Dir, path sample_upload \<mapsto> File ''PNG''],
      console = [], outbound = [], fetched = [], dispatched = [], uncaught = []\<rparr>"

definition prompt_body :: "(string \<times> js_value) list" where
  "prompt_body = [(''prompt'', JStr ''a landing page'')]"

definition prompt_request :: request where
  "prompt_request = \<lparr>body = Some prompt_body, req_file = None\<rparr>"

definition bad_model_body :: "(string \<times> js_value) list" where
  "bad_model_body =
     [(''prompt'', JStr ''a landing page''), (''topic'', JStr ''monads''),
      (''url'', JStr ''https://youtu.be/dQw4w9WgXcQ''), (''model'', JStr ''openai/gpt-4o'')]"

definition bad_model_request :: request where
  "bad_model_request = \<lparr>body = Some bad_model_body, req_file = None\<rparr>"

definition all_fields_body :: "(string \<times> js_value) list" where
  "all_fields_body =
     [(''prompt'', JStr ''a landing page''), (''topic'', JStr ''monads''),
      (''url'', JStr ''https://youtu.be/dQw4w9WgXcQ'')]"

definition all_fields_request :: request where
  "all_fields_request = \<lparr>body = Some all_fields_body, req_file = None\<rparr>"

definition empty_request :: request where
  "empty_request = \<lparr>body = Some [], req_file = None\<rparr>"

definition empty_fields_request :: request where
  "empty_fields_request =
     \<lparr>body = Some [(''prompt'', JStr []), (''topic'', JStr []), (''url'', JStr [])], req_file = None\<rparr>"

definition no_body_request :: request where
  "no_body_request = \<lparr>body = None, req_file = None\<rparr>"

definition upload_request :: request where
  "upload_request = \<lparr>body = Some [], req_file = Some sample_upload\<rparr>"

lemmas sample_defs = sample_env_def sample_world_def sample_completion_def sample_transcript_def
  provider_down_env_def no_transcript_env_def broken_transfer_env_def sample_upload_def
  prompt_request_def prompt_body_def bad_model_request_def bad_model_body_def
  all_fields_request_def all_fields_body_def empty_request_def
  empty_fields_request_def no_body_request_def upload_request_def

section \<open>The dispatch helper\<close>

lemma sublist_prepend: "sublist m ys \<Longrightarrow> sublist m (ps @ ys)"
  unfolding sublist_def by (metis append_assoc)

lemma sublist_join: "m \<in> set xs \<Longrightarrow> sublist m (join sep xs)"
proof (induction sep xs rule: join.induct)
  case (1 sep)
  then show ?case by simp
next
  case (2 sep x)
  then show ?case by simp
next
  case (3 sep x y ys)
  show ?case
  proof (cases "m = x")
    case True
    then show ?thesis by (simp add: sublist_append_rightI)
  next
    case False
    with 3 have "sublist m (join sep (y # ys))" by simp
    then have "sublist m ((x @ sep) @ join sep (y # ys))" by (rule sublist_prepend)
    then show ?thesis by simp
  qed
qed

lemma array_includes_iff: "array_includes xs v \<longleftrightarrow> (\<exists>s. v = JStr s \<and> s \<in> set xs)"
  by (cases v) (simp_all add: array_includes_def)

lemma callAI_not_allowed:
  "\<not> array_includes AVAILABLE_MODELS mdl \<Longrightarrow>
   callAI ev mdl msgs w = (Inl invalid_model_error, w\<lparr>dispatched := dispatched w @ [(mdl, msgs)]\<rparr>)"
  by (simp add: callAI_def Let_def)

lemma callAI_dispatched: "dispatched (snd (callAI ev mdl msgs w)) = dispatched w @ [(mdl, msgs)]"
  by (simp add: callAI_def Let_def callAI_catch_def console_error_def
      split: js_value.splits promise.splits list.splits)

lemma callAI_outbound:
  "outbound (snd (callAI ev mdl msgs w)) =
     (if array_includes AVAILABLE_MODELS mdl then outbound w @ [\<lparr>model = mdl, messages = msgs\<rparr>]
      else outbound w)"
  by (simp add: callAI_def Let_def callAI_catch_def console_error_def array_includes_def
      split: js_value.splits promise.splits list.splits)

lemma callAI_fs: "fs (snd (callAI ev mdl msgs w)) = fs w"
  by (simp add: callAI_def Let_def callAI_catch_def console_error_def
      split: js_value.splits promise.splits list.splits)

lemma callAI_uncaught: "uncaught (snd (callAI ev mdl msgs w)) = uncaught w"
  by (simp add: callAI_def Let_def callAI_catch_def console_error_def
      split: js_value.splits promise.splits list.splits)

lemma callAI_fetched: "fetched (snd (callAI ev mdl msgs w)) = fetched w"
  by (simp add: callAI_def Let_def callAI_catch_def console_error_def
      split: js_value.splits promise.splits list.splits)

text \<open>
  C1. For every model value outside \<open>AVAILABLE_MODELS\<close> and every message list, \<open>callAI\<close>
  throws the invalid-model error, whose message is the fixed prefix followed by the
  allowed identifiers joined with commas, so that every allowed identifier occurs in it;
  the provider is not called (\<open>outbound\<close> is unchanged, only the invocation is recorded).
\<close>

theorem callAI_invalid_model:
  assumes "\<not> array_includes AVAILABLE_MODELS mdl"
  shows "callAI ev mdl msgs w = (Inl invalid_model_error, w\<lparr>dispatched := dispatched w @ [(mdl, msgs)]\<rparr>)
       \<and> outbound (snd (callAI ev mdl msgs w)) = outbound w
       \<and> message invalid_model_error = ''Invalid model. Choose from: '' @ join '', '' AVAILABLE_MODELS
       \<and> (\<forall>m \<in> set AVAILABLE_MODELS. sublist m (message invalid_model_error))"
proof -
  have call: "callAI ev mdl msgs w = (Inl invalid_model_error, w\<lparr>dispatched := dispatched w @ [(mdl, msgs)]\<rparr>)"
    using assms by (simp add: callAI_def Let_def)
  have msg: "message invalid_model_error = ''Invalid model. Choose from: '' @ join '', '' AVAILABLE_MODELS"
    by (simp add: invalid_model_error_def)
  have "\<forall>m \<in> set AVAILABLE_MODELS. sublist m (message invalid_model_error)"
    unfolding msg by (blast intro: sublist_join sublist_prepend)
  with call msg show ?thesis by simp
qed

theorem callAI_invalid_model_witness:
  "\<not> array_includes AVAILABLE_MODELS (JStr ''openai/gpt-4o'')
   \<and> fst (callAI sample_env (JStr ''openai/gpt-4o'') [] sample_world) = Inl invalid_model_error
   \<and> outbound (snd (callAI sample_env (JStr ''openai/gpt-4o'') [] sample_world)) = []
   \<and> message invalid_model_error = ''Invalid model. Choose from: microsoft/phi-4-reasoning-plus:free, thudm/glm-z1-32b:free, deepseek/deepseek-chat-v3-0324:free, deepseek/deepseek-chat:free, qwen/qwen3-32b:free''
   \<and> sublist ''qwen/qwen3-32b:free'' (message invalid_model_error)"
proof -
  have h: "\<not> array_includes AVAILABLE_MODELS (JStr ''openai/gpt-4o'')"
    by (simp add: array_includes_def AVAILABLE_MODELS_def)
  have m: "''qwen/qwen3-32b:free'' \<in> set AVAILABLE_MODELS"
    by (simp add: AVAILABLE_MODELS_def)
  note t = callAI_invalid_model [OF h, of sample_env "[]" sample_world]
  from t m have "sublist ''qwen/qwen3-32b:free'' (message invalid_model_error)" by blast
  moreover from t have "message invalid_model_error = ''Invalid model. Choose from: microsoft/phi-4-reasoning-plus:free, thudm/glm-z1-32b:free, deepseek/deepseek-chat-v3-0324:free, deepseek/deepseek-chat:free, qwen/qwen3-32b:free''"
    by (simp add: AVAILABLE_MODELS_def)
  moreover from t have "fst (callAI sample_env (JStr ''openai/gpt-4o'') [] sample_world) = Inl invalid_model_error"
    by simp
  moreover from t have "outbound (snd (callAI sample_env (JStr ''openai/gpt-4o'') [] sample_world)) = []"
    by (simp add: sample_world_def)
  ultimately show ?thesis using h by blast
qed

text \<open>
  C2. For every allowed model and every message list, when the provider call resolves
  with a completion that has a first choice, \<open>callAI\<close> returns the content of that
  choice's message as it is, after exactly one provider call with the given model and
  messages.
\<close>

theorem callAI_returns_first_choice:
  assumes "array_includes AVAILABLE_MODELS mdl"
    and "create ev \<lparr>model = mdl, messages = msgs\<rparr> = Resolved c"
    and "choices c = ch # rest"
  shows "callAI ev mdl msgs w =
           (Inr (content (choice_message ch)),
            w\<lparr>dispatched := dispatched w @ [(mdl, msgs)],
              outbound := outbound w @ [\<lparr>model = mdl, messages = msgs\<rparr>]\<rparr>)"
  using assms by (auto simp: callAI_def Let_def array_includes_iff)

theorem callAI_returns_first_choice_witness:
  "array_includes AVAILABLE_MODELS (JStr ''qwen/qwen3-32b:free'')
   \<and> create sample_env \<lparr>model = JStr ''qwen/qwen3-32b:free'', messages = system_user ''Be brief.'' (JStr ''hi'')\<rparr>
       = Resolved sample_completion
   \<and> choices sample_completion = [Choice \<lparr>role = ''assistant'', content = JStr ''<!DOCTYPE html><html></html>''\<rparr>]
   \<and> fst (callAI sample_env (JStr ''qwen/qwen3-32b:free'') (system_user ''Be brief.'' (JStr ''hi'')) sample_world)
       = Inr (JStr ''<!DOCTYPE html><html></html>'')"
proof -
  have a: "array_includes AVAILABLE_MODELS (JStr ''qwen/qwen3-32b:free'')"
    by (simp add: array_includes_def AVAILABLE_MODELS_def)
  have b: "create sample_env \<lparr>model = JStr ''qwen/qwen3-32b:free'', messages = system_user ''Be brief.'' (JStr ''hi'')\<rparr>
       = Resolved sample_completion"
    by (simp add: sample_env_def)
  have c: "choices sample_completion = Choice \<lparr>role = ''assistant'', content = JStr ''<!DOCTYPE html><html></html>''\<rparr> # []"
    by (simp add: sample_completion_def)
  from callAI_returns_first_choice [OF a b c, of sample_world] a b c show ?thesis by simp
qed

text \<open>
  C8. For every allowed model and every message list, when the provider call rejects
  with an error \<open>e\<close>, \<open>callAI\<close> throws an error with the fixed message
  \<open>Failed to get response from AI model.\<close>, in which nothing of \<open>e\<close> appears, and
  \<open>e\<close> itself is written to the console after the line naming the model.
\<close>

theorem callAI_upstream_failure:
  assumes "m \<in> set AVAILABLE_MODELS"
    and "create ev \<lparr>model = JStr m, messages = msgs\<rparr> = Rejected e"
  shows "callAI ev (JStr m) msgs w =
           (Inl (Error ''Failed to get response from AI model.''),
            w\<lparr>dispatched := dispatched w @ [(JStr m, msgs)],
              outbound := outbound w @ [\<lparr>model = JStr m, messages = msgs\<rparr>],
              console := console w @ [(''Error calling AI model '' @ m @ '':'', e)]\<rparr>)"
  using assms by (simp add: callAI_def Let_def array_includes_def callAI_catch_def upstream_failure_def console_error_def)

theorem callAI_upstream_failure_witness:
  "''qwen/qwen3-32b:free'' \<in> set AVAILABLE_MODELS
   \<and> create provider_down_env \<lparr>model = JStr ''qwen/qwen3-32b:free'', messages = []\<rparr>
       = Rejected (Error ''401 No auth credentials found'')
   \<and> fst (callAI provider_down_env (JStr ''qwen/qwen3-32b:free'') [] sample_world)
       = Inl (Error ''Failed to get response from AI model.'')
   \<and> console (snd (callAI provider_down_env (JStr ''qwen/qwen3-32b:free'') [] sample_world))
       = [(''Error calling AI model qwen/qwen3-32b:free:'', Error ''401 No auth credentials found'')]"
proof -
  have a: "''qwen/qwen3-32b:free'' \<in> set AVAILABLE_MODELS"
    by (simp add: AVAILABLE_MODELS_def)
  have b: "create provider_down_env \<lparr>model = JStr ''qwen/qwen3-32b:free'', messages = []\<rparr>
       = Rejected (Error ''401 No auth credentials found'')"
    by (simp add: provider_down_env_def)
  from callAI_upstream_failure [OF a b, of sample_world] a b show ?thesis
    by (simp add: sample_world_def)
qed

section \<open>Missing input\<close>

lemma absent_or_empty_falsy: "absent_or_empty b k \<Longrightarrow> \<not> truthy (field b k)"
  by (auto simp: absent_or_empty_def field_def)

text \<open>
  On a parsed body the validation is as intended: for each of the six text-prompt
  handlers, a required field that is absent or the empty string is answered with status
  400 and the handler's own message, and the world is unchanged.
\<close>

lemma missing_field_rejected:
  assumes bd: "body req = Some b"
  shows "(absent_or_empty b ''prompt'' \<longrightarrow>
      generateCode ev req w = (error_json 400 ''Prompt is required.'', w)
    \<and> getMathReasoning ev req w = (error_json 400 ''Math problem prompt is required.'', w)
    \<and> solveCodingTask ev req w = (error_json 400 ''Coding task prompt is required.'', w)
    \<and> handleChat ev req w = (error_json 400 ''Prompt is required for chat.'', w))
   \<and> (absent_or_empty b ''url'' \<longrightarrow>
      summarizeYoutubeVideo ev req w = (error_json 400 ''YouTube URL is required.'', w))
   \<and> (absent_or_empty b ''topic'' \<longrightarrow>
      getExplainer ev req w = (error_json 400 ''Topic is required.'', w))"
  by (simp add: generateCode_def getMathReasoning_def solveCodingTask_def handleChat_def
      summarizeYoutubeVideo_def getExplainer_def bd Let_def absent_or_empty_falsy)

lemma missing_body_unhandled:
  assumes "body req = None"
  shows "generateCode ev req w = (Unhandled (cannot_destructure ''prompt''), w)"
    and "getMathReasoning ev req w = (Unhandled (cannot_destructure ''prompt''), w)"
    and "solveCodingTask ev req w = (Unhandled (cannot_destructure ''prompt''), w)"
    and "summarizeYoutubeVideo ev req w = (Unhandled (cannot_destructure ''url''), w)"
    and "handleChat ev req w = (Unhandled (cannot_destructure ''prompt''), w)"
    and "getExplainer ev req w = (Unhandled (cannot_destructure ''topic''), w)"
  using assms
  by (simp_all add: generateCode_def getMathReasoning_def solveCodingTask_def handleChat_def
      summarizeYoutubeVideo_def getExplainer_def)

text \<open>
  C6. A request without a parsed body has no \<open>prompt\<close>, \<open>url\<close> or \<open>topic\<close>, yet none of
  the six text-prompt handlers answers it with status 400: the destructuring of
  \<open>req.body\<close> throws before the field is tested and before the \<open>try\<close>, so the exception
  leaves the handler (status 500 from the framework). No provider call and no transcript
  fetch is made. The same handlers answer an empty object and empty-string fields with
  400.
\<close>

theorem missing_body_escapes_validation:
  "body no_body_request = None
   \<and> generateCode sample_env no_body_request sample_world
       = (Unhandled (Error ''Cannot destructure property 'prompt' of 'req.body' as it is undefined.''), sample_world)
   \<and> getMathReasoning sample_env no_body_request sample_world
       = (Unhandled (Error ''Cannot destructure property 'prompt' of 'req.body' as it is undefined.''), sample_world)
   \<and> solveCodingTask sample_env no_body_request sample_world
       = (Unhandled (Error ''Cannot destructure property 'prompt' of 'req.body' as it is undefined.''), sample_world)
   \<and> summarizeYoutubeVideo sample_env no_body_request sample_world
       = (Unhandled (Error ''Cannot destructure property 'url' of 'req.body' as it is undefined.''), sample_world)
   \<and> handleChat sample_env no_body_request sample_world
       = (Unhandled (Error ''Cannot destructure property 'prompt' of 'req.body' as it is undefined.''), sample_world)
   \<and> getExplainer sample_env no_body_request sample_world
       = (Unhandled (Error ''Cannot destructure property 'topic' of 'req.body' as it is undefined.''), sample_world)
   \<and> status (fst (generateCode sample_env no_body_request sample_world)) \<noteq> Some 400
   \<and> status (fst (getMathReasoning sample_env no_body_request sample_world)) \<noteq> Some 400
   \<and> status (fst (solveCodingTask sample_env no_body_request sample_world)) \<noteq> Some 400
   \<and> status (fst (summarizeYoutubeVideo sample_env no_body_request sample_world)) \<noteq> Some 400
   \<and> status (fst (handleChat sample_env no_body_request sample_world)) \<noteq> Some 400
   \<and> status (fst (getExplainer sample_env no_body_request sample_world)) \<noteq> Some 400
   \<and> outbound sample_world = [] \<and> fetched sample_world = []
   \<and> generateCode sample_env empty_request sample_world
       = (Json 400 (JObj [(''error'', JStr ''Prompt is required.'')]), sample_world)
   \<and> getMathReasoning sample_env empty_fields_request sample_world
       = (Json 400 (JObj [(''error'', JStr ''Math problem prompt is required.'')]), sample_world)
   \<and> solveCodingTask sample_env empty_fields_request sample_world
       = (Json 400 (JObj [(''error'', JStr ''Coding task prompt is required.'')]), sample_world)
   \<and> summarizeYoutubeVideo sample_env empty_fields_request sample_world
       = (Json 400 (JObj [(''error'', JStr ''YouTube URL is required.'')]), sample_world)
   \<and> handleChat sample_env empty_request sample_world
       = (Json 400 (JObj [(''error'', JStr ''Prompt is required for chat.'')]), sample_world)
   \<and> getExplainer sample_env empty_request sample_world
       = (Json 400 (JObj [(''error'', JStr ''Topic is required.'')]), sample_world)"
  by (simp add: generateCode_def getMathReasoning_def solveCodingTask_def handleChat_def
      summarizeYoutubeVideo_def getExplainer_def Let_def field_def cannot_destructure_def
      error_json_def no_body_request_def empty_request_def empty_fields_request_def
      sample_world_def)

section \<open>The YouTube summarizer\<close>

text \<open>
  C5. For every request with a truthy \<open>url\<close> whose transcript fetch resolves: an absent
  or empty transcript is answered with status 404 without any provider call or \<open>callAI\<close>
  invocation; a transcript with at least one segment leads to one \<open>callAI\<close> invocation
  whose user message is \<open>Transcript: \<close> followed by the segment texts in order, joined
  with single spaces (the segments \<open>Hello\<close>, \<open>world\<close> give
  \<open>Transcript: Hello world\<close>).
\<close>

theorem summarizeYoutubeVideo_transcript:
  assumes bd: "body req = Some b"
    and "truthy (field b ''url'')"
    and "fetchTranscript ev (field b ''url'') = Resolved t"
  shows "(t = None \<or> t = Some [] \<longrightarrow>
            summarizeYoutubeVideo ev req w
              = (error_json 404 ''Could not fetch transcript for this video. It might have transcripts disabled.'',
                 w\<lparr>fetched := fetched w @ [field b ''url'']\<rparr>)
          \<and> outbound (snd (summarizeYoutubeVideo ev req w)) = outbound w
          \<and> dispatched (snd (summarizeYoutubeVideo ev req w)) = dispatched w)
       \<and> (t = Some segs \<and> segs \<noteq> [] \<longrightarrow>
            dispatched (snd (summarizeYoutubeVideo ev req w))
              = dispatched w @
                [(default_to (field b ''model'') (JStr ''deepseek/deepseek-chat-v3-0324:free''),
                  [\<lparr>role = ''system'', content = JStr summarizeYoutubeVideo_systemPrompt\<rparr>,
                   \<lparr>role = ''user'',
                    content = JStr (''Transcript: '' @ join '' '' (map seg_text segs))\<rparr>])])"
proof (intro conjI impI)
  assume "t = None \<or> t = Some []"
  with assms show "summarizeYoutubeVideo ev req w
              = (error_json 404 ''Could not fetch transcript for this video. It might have transcripts disabled.'',
                 w\<lparr>fetched := fetched w @ [field b ''url'']\<rparr>)"
    and "outbound (snd (summarizeYoutubeVideo ev req w)) = outbound w"
    and "dispatched (snd (summarizeYoutubeVideo ev req w)) = dispatched w"
    by (auto simp: summarizeYoutubeVideo_def bd Let_def no_transcript_def)
next
  assume "t = Some segs \<and> segs \<noteq> []"
  then have t: "t = Some segs" and ne: "segs \<noteq> []" by simp_all
  let ?msgs = "system_user summarizeYoutubeVideo_systemPrompt
                 (JStr (''Transcript: '' @ join '' '' (map seg_text segs)))"
  let ?mdl = "default_to (field b ''model'') (JStr ''deepseek/deepseek-chat-v3-0324:free'')"
  let ?w1 = "w\<lparr>fetched := fetched w @ [field b ''url'']\<rparr>"
  have "dispatched (snd (summarizeYoutubeVideo ev req w)) = dispatched (snd (callAI ev ?mdl ?msgs ?w1))"
    using assms t ne
    by (simp add: summarizeYoutubeVideo_def bd Let_def summarizeYoutubeVideo_catch_def console_error_def
        split: prod.splits sum.splits)
  also have "\<dots> = dispatched w @ [(?mdl, ?msgs)]"
    by (simp add: callAI_dispatched)
  finally show "dispatched (snd (summarizeYoutubeVideo ev req w))
              = dispatched w @
                [(?mdl,
                  [\<lparr>role = ''system'', content = JStr summarizeYoutubeVideo_systemPrompt\<rparr>,
                   \<lparr>role = ''user'',
                    content = JStr (''Transcript: '' @ join '' '' (map seg_text segs))\<rparr>])]"
    by (simp add: system_user_def)
qed

theorem summarizeYoutubeVideo_transcript_witness:
  "body all_fields_request = Some all_fields_body
   \<and> truthy (field all_fields_body ''url'')
   \<and> fetchTranscript no_transcript_env (field all_fields_body ''url'') = Resolved (Some [])
   \<and> status (fst (summarizeYoutubeVideo no_transcript_env all_fields_request sample_world)) = Some 404
   \<and> outbound (snd (summarizeYoutubeVideo no_transcript_env all_fields_request sample_world)) = []
   \<and> dispatched (snd (summarizeYoutubeVideo no_transcript_env all_fields_request sample_world)) = []
   \<and> fetchTranscript sample_env (field all_fields_body ''url'') = Resolved (Some sample_transcript)
   \<and> map seg_text sample_transcript = [''Hello'', ''world'']
   \<and> map (\<lambda>(m, msgs). map content msgs) (dispatched (snd (summarizeYoutubeVideo sample_env all_fields_request sample_world)))
       = [[JStr summarizeYoutubeVideo_systemPrompt, JStr ''Transcript: Hello world'']]"
proof -
  have bd: "body all_fields_request = Some all_fields_body"
    by (simp add: all_fields_request_def)
  have a: "truthy (field all_fields_body ''url'')"
    by (simp add: all_fields_body_def field_def)
  have b: "fetchTranscript no_transcript_env (field all_fields_body ''url'') = Resolved (Some [])"
    by (simp add: no_transcript_env_def sample_env_def)
  have c: "fetchTranscript sample_env (field all_fields_body ''url'') = Resolved (Some sample_transcript)"
    by (simp add: sample_env_def)
  have d: "map seg_text sample_transcript = [''Hello'', ''world'']"
    by (simp add: sample_transcript_def)
  have e: "outbound sample_world = [] \<and> dispatched sample_world = []"
    by (simp add: sample_world_def)
  have f: "sample_transcript \<noteq> []"
    by (simp add: sample_transcript_def)
  from summarizeYoutubeVideo_transcript [OF bd a b, where w = sample_world and segs = sample_transcript]
  have 1: "status (fst (summarizeYoutubeVideo no_transcript_env all_fields_request sample_world)) = Some 404
   \<and> outbound (snd (summarizeYoutubeVideo no_transcript_env all_fields_request sample_world)) = []
   \<and> dispatched (snd (summarizeYoutubeVideo no_transcript_env all_fields_request sample_world)) = []"
    using e by (simp add: error_json_def)
  from summarizeYoutubeVideo_transcript [OF bd a c, where w = sample_world and segs = sample_transcript]
  have 2: "map (\<lambda>(m, msgs). map content msgs) (dispatched (snd (summarizeYoutubeVideo sample_env all_fields_request sample_world)))
       = [[JStr summarizeYoutubeVideo_systemPrompt, JStr ''Transcript: Hello world'']]"
    using d e f by simp
  from bd a b c d 1 2 show ?thesis by blast
qed

section \<open>The status of an invalid model\<close>

text \<open>
  C4, as stated, fails: with a prompt and the model \<open>openai/gpt-4o\<close>, which is not in
  the allow-list, \<open>generateCode\<close> answers with status 500, not 400.
\<close>

theorem invalid_model_bad_request_counterexample:
  "body bad_model_request = Some bad_model_body
   \<and> map_of bad_model_body ''model'' = Some (JStr ''openai/gpt-4o'')
   \<and> ''openai/gpt-4o'' \<notin> set AVAILABLE_MODELS
   \<and> fst (generateCode sample_env bad_model_request sample_world)
       = Json 500 (JObj [(''error'', JStr ''Invalid model. Choose from: microsoft/phi-4-reasoning-plus:free, thudm/glm-z1-32b:free, deepseek/deepseek-chat-v3-0324:free, deepseek/deepseek-chat:free, qwen/qwen3-32b:free'')])
   \<and> status (fst (generateCode sample_env bad_model_request sample_world)) \<noteq> Some 400"
  by (simp add: bad_model_request_def bad_model_body_def generateCode_def field_def default_to_def Let_def
      callAI_def array_includes_def AVAILABLE_MODELS_def invalid_model_error_def error_json_def)

text \<open>
  C4, amended. For every request whose \<open>model\<close> is a string outside the allow-list and
  whose required field is truthy, no provider call is made and the answer carries the
  server-error status 500: generate-code, math-reasoning, coding-task, chat and explainer
  echo the invalid-model message; youtube-summarize answers 500 with its fixed message,
  unless the transcript is absent or empty, which it answers with 404 before the model
  is looked at.
\<close>

theorem invalid_model_server_error:
  assumes bd: "body req = Some b"
    and mdl: "field b ''model'' = JStr s" and out: "s \<notin> set AVAILABLE_MODELS"
  shows "(truthy (field b ''prompt'') \<longrightarrow>
            fst (generateCode ev req w) = error_json 500 (message invalid_model_error)
          \<and> fst (getMathReasoning ev req w) = error_json 500 (message invalid_model_error)
          \<and> fst (solveCodingTask ev req w) = error_json 500 (message invalid_model_error)
          \<and> fst (handleChat ev req w) = error_json 500 (message invalid_model_error)
          \<and> outbound (snd (generateCode ev req w)) = outbound w
          \<and> outbound (snd (getMathReasoning ev req w)) = outbound w
          \<and> outbound (snd (solveCodingTask ev req w)) = outbound w
          \<and> outbound (snd (handleChat ev req w)) = outbound w)
       \<and> (truthy (field b ''topic'') \<longrightarrow>
            fst (getExplainer ev req w) = error_json 500 (message invalid_model_error)
          \<and> outbound (snd (getExplainer ev req w)) = outbound w)
       \<and> (truthy (field b ''url'') \<longrightarrow>
            fst (summarizeYoutubeVideo ev req w)
              = (if fetchTranscript ev (field b ''url'') \<in> {Resolved None, Resolved (Some [])}
                 then error_json 404 ''Could not fetch transcript for this video. It might have transcripts disabled.''
                 else error_json 500 ''Failed to summarize YouTube video. Please ensure the URL is correct and the video has a transcript.'')
          \<and> outbound (snd (summarizeYoutubeVideo ev req w)) = outbound w)"
proof -
  have na: "\<not> array_includes AVAILABLE_MODELS (JStr s)"
    using out by (simp add: array_includes_def)
  have d: "default_to (JStr s) x = JStr s" for x
    by (simp add: default_to_def)
  note c = callAI_not_allowed [OF na]
  have 1: "truthy (field b ''prompt'') \<Longrightarrow>
            fst (generateCode ev req w) = error_json 500 (message invalid_model_error)
          \<and> outbound (snd (generateCode ev req w)) = outbound w"
    by (simp add: generateCode_def bd Let_def mdl d c)
  have 2: "truthy (field b ''prompt'') \<Longrightarrow>
            fst (getMathReasoning ev req w) = error_json 500 (message invalid_model_error)
          \<and> outbound (snd (getMathReasoning ev req w)) = outbound w"
    by (simp add: getMathReasoning_def bd Let_def mdl d c)
  have 3: "truthy (field b ''prompt'') \<Longrightarrow>
            fst (solveCodingTask ev req w) = error_json 500 (message invalid_model_error)
          \<and> outbound (snd (solveCodingTask ev req w)) = outbound w"
    by (simp add: solveCodingTask_def bd Let_def mdl d c)
  have 4: "truthy (field b ''prompt'') \<Longrightarrow>
            fst (handleChat ev req w) = error_json 500 (message invalid_model_error)
          \<and> outbound (snd (handleChat ev req w)) = outbound w"
    by (simp add: handleChat_def bd Let_def mdl d c)
  have 5: "truthy (field b ''topic'') \<Longrightarrow>
            fst (getExplainer ev req w) = error_json 500 (message invalid_model_error)
          \<and> outbound (snd (getExplainer ev req w)) = outbound w"
    by (simp add: getExplainer_def bd Let_def mdl d c)
  have 6: "truthy (field b ''url'') \<Longrightarrow>
            fst (summarizeYoutubeVideo ev req w)
              = (if fetchTranscript ev (field b ''url'') \<in> {Resolved None, Resolved (Some [])}
                 then error_json 404 ''Could not fetch transcript for this video. It might have transcripts disabled.''
                 else error_json 500 ''Failed to summarize YouTube video. Please ensure the URL is correct and the video has a transcript.'')
          \<and> outbound (snd (summarizeYoutubeVideo ev req w)) = outbound w"
    by (simp add: summarizeYoutubeVideo_def bd Let_def mdl d c summarizeYoutubeVideo_catch_def
        console_error_def no_transcript_def split: promise.splits option.splits)
  from 1 2 3 4 5 6 show ?thesis by blast
qed

theorem invalid_model_server_error_witness:
  "body bad_model_request = Some bad_model_body
   \<and> field bad_model_body ''model'' = JStr ''openai/gpt-4o''
   \<and> ''openai/gpt-4o'' \<notin> set AVAILABLE_MODELS
   \<and> truthy (field bad_model_body ''prompt'')
   \<and> truthy (field bad_model_body ''topic'')
   \<and> truthy (field bad_model_body ''url'')
   \<and> status (fst (generateCode sample_env bad_model_request sample_world)) = Some 500
   \<and> status (fst (getMathReasoning sample_env bad_model_request sample_world)) = Some 500
   \<and> status (fst (solveCodingTask sample_env bad_model_request sample_world)) = Some 500
   \<and> status (fst (handleChat sample_env bad_model_request sample_world)) = Some 500
   \<and> status (fst (getExplainer sample_env bad_model_request sample_world)) = Some 500
   \<and> status (fst (summarizeYoutubeVideo sample_env bad_model_request sample_world)) = Some 500
   \<and> status (fst (summarizeYoutubeVideo no_transcript_env bad_model_request sample_world)) = Some 404"
proof -
  have bd: "body bad_model_request = Some bad_model_body"
    by (simp add: bad_model_request_def)
  have a: "field bad_model_body ''model'' = JStr ''openai/gpt-4o''"
    by (simp add: bad_model_body_def field_def)
  have b: "''openai/gpt-4o'' \<notin> set AVAILABLE_MODELS"
    by (simp add: AVAILABLE_MODELS_def)
  have c: "truthy (field bad_model_body ''prompt'')
   \<and> truthy (field bad_model_body ''topic'')
   \<and> truthy (field bad_model_body ''url'')"
    by (simp add: bad_model_body_def field_def)
  have d: "fetchTranscript sample_env u \<notin> {Resolved None, Resolved (Some [])}" for u
    by (simp add: sample_env_def sample_transcript_def)
  have e: "fetchTranscript no_transcript_env u \<in> {Resolved None, Resolved (Some [])}" for u
    by (simp add: no_transcript_env_def)
  from invalid_model_server_error [OF bd a b, of sample_env sample_world]
       invalid_model_server_error [OF bd a b, of no_transcript_env sample_world] bd a b c d e
  show ?thesis by (simp add: error_json_def)
qed

section \<open>Image to text\<close>

lemma base64_sample: "base64 ''PNG'' = ''UE5H''" "base64 ''hi'' = ''aGk='' " "base64 ''A'' = ''QQ==''"
  by (simp_all add: base64_digit_def base64_alphabet_def)

lemma imageToText_missing_file:
  "req_file req = None \<Longrightarrow> imageToText ev req w = (error_json 400 ''Image file is required.'', w)"
  by (simp add: imageToText_def)

lemma imageToText_resolved_unlinks:
  assumes "req_file req = Some f" and "fs w (path f) = Some (File c)"
    and "create ev \<lparr>model = JStr ''qwen/qwen3-32b:free'',
           messages = [\<lparr>role = ''user'',
             content = vision_content (''data:'' @ mimetype f @ '';base64,'' @ base64 c)\<rparr>]\<rparr> = Resolved r"
  shows "fs (snd (imageToText ev req w)) (path f) = None"
  using assms
  by (simp add: imageToText_def readFileSync_def unlinkSync_def Let_def imageToText_catch_def
      console_error_def split: list.splits)

lemma imageToText_rejected_keeps:
  assumes "req_file req = Some f" and "fs w (path f) = Some (File c)"
    and "create ev \<lparr>model = JStr ''qwen/qwen3-32b:free'',
           messages = [\<lparr>role = ''user'',
             content = vision_content (''data:'' @ mimetype f @ '';base64,'' @ base64 c)\<rparr>]\<rparr> = Rejected e"
  shows "imageToText ev req w =
           (error_json 500 ''Failed to process image.'',
            w\<lparr>outbound := outbound w @ [\<lparr>model = JStr ''qwen/qwen3-32b:free'',
                 messages = [\<lparr>role = ''user'',
                   content = vision_content (''data:'' @ mimetype f @ '';base64,'' @ base64 c)\<rparr>]\<rparr>],
              console := console w @ [(''Image processing error:'', e)]\<rparr>)"
  using assms
  by (simp add: imageToText_def readFileSync_def Let_def imageToText_catch_def console_error_def)

text \<open>
  C3. Without an uploaded file the handler answers 400, and after a resolved provider
  call the upload is unlinked (the lemmas above). When the provider call rejects, the
  \<open>catch\<close> block answers 500 and unlinks nothing: on the sample upload the file is
  still on storage after the request, while the same request with a resolving provider
  removes it.
\<close>

theorem imageToText_upload_left_behind:
  "req_file upload_request = Some sample_upload
   \<and> fs sample_world (path sample_upload) = Some (File ''PNG'')
   \<and> fst (imageToText provider_down_env upload_request sample_world)
       = Json 500 (JObj [(''error'', JStr ''Failed to process image.'')])
   \<and> fs (snd (imageToText provider_down_env upload_request sample_world)) (path sample_upload)
       = Some (File ''PNG'')
   \<and> fs (snd (imageToText sample_env upload_request sample_world)) (path sample_upload) = None"
  by (simp add: imageToText_def readFileSync_def unlinkSync_def Let_def imageToText_catch_def
      console_error_def error_json_def ok_json_def sample_defs)

section \<open>The generated artifact\<close>

lemma artifact_dir_eq: "artifact_dir ev = butlast (dirname ev) @ [''generated_code'']"
  by (simp add: artifact_dir_def)





section \<open>The shape of provider calls\<close>

lemma mkdirSync_traces:
  "mkdirSync p w = Inr w' \<Longrightarrow> outbound w' = outbound w \<and> dispatched w' = dispatched w"
  by (auto simp: mkdirSync_def split: if_splits option.splits node.splits)

lemma writeFileSync_traces:
  "writeFileSync p d w = Inr w' \<Longrightarrow> outbound w' = outbound w \<and> dispatched w' = dispatched w"
  by (auto simp: writeFileSync_def split: js_value.splits option.splits node.splits)

lemma download_traces:
  "outbound (snd (download ev p n w)) = outbound w \<and> dispatched (snd (download ev p n w)) = dispatched w"
  by (simp add: download_def Let_def readFileSync_def unlinkSync_def console_error_def
      split: option.splits node.splits sum.splits)

lemma download_not_json: "fst (download ev p n w) \<noteq> Json k v"
  by (simp add: download_def Let_def split: option.splits sum.splits)

text \<open>What a handler built on \<open>callAI\<close> leaves in the two traces.\<close>

lemma generateCode_traces:
  assumes bd: "body req = Some b"
    and "callAI ev (default_to (field b ''model'') (JStr ''deepseek/deepseek-chat:free''))
             (system_user generateCode_systemPrompt (field b ''prompt'')) w = (r, w1)"
    and "truthy (field b ''prompt'')"
  shows "outbound (snd (generateCode ev req w)) = outbound w1
       \<and> dispatched (snd (generateCode ev req w)) = dispatched w1"
proof (cases r)
  case (Inl e)
  with assms show ?thesis by (simp add: generateCode_def bd Let_def)
next
  case (Inr code)
  let ?d = "path_join (dirname ev) [''..'', ''generated_code'']"
  let ?p = "path_join ?d [''index.html'']"
  show ?thesis
  proof (cases "if \<not> existsSync w1 ?d then mkdirSync ?d w1 else Inr w1")
    case (Inl e)
    with assms Inr show ?thesis by (simp add: generateCode_def bd Let_def del: path_join.simps)
  next
    case mk: (Inr w2)
    then have w2: "outbound w2 = outbound w1 \<and> dispatched w2 = dispatched w1"
      by (auto split: if_splits dest: mkdirSync_traces)
    show ?thesis
    proof (cases "writeFileSync ?p code w2")
      case (Inl e)
      with assms Inr mk w2 show ?thesis by (simp add: generateCode_def bd Let_def del: path_join.simps)
    next
      case wr: (Inr w3)
      then have w3: "outbound w3 = outbound w2 \<and> dispatched w3 = dispatched w2"
        by (rule writeFileSync_traces)
      from assms Inr mk wr have "generateCode ev req w = download ev ?p ''index.html'' w3"
        by (simp add: generateCode_def bd Let_def del: path_join.simps)
      with w2 w3 show ?thesis by (simp add: download_traces)
    qed
  qed
qed

lemma summarizeYoutubeVideo_traces_none:
  assumes bd: "body req = Some b"
    and "\<not> truthy (field b ''url'')
           \<or> fetchTranscript ev (field b ''url'') = Rejected e
           \<or> fetchTranscript ev (field b ''url'') = Resolved None
           \<or> fetchTranscript ev (field b ''url'') = Resolved (Some [])"
  shows "outbound (snd (summarizeYoutubeVideo ev req w)) = outbound w
       \<and> dispatched (snd (summarizeYoutubeVideo ev req w)) = dispatched w"
proof (cases "truthy (field b ''url'')")
  case True
  with assms consider
      "fetchTranscript ev (field b ''url'') = Rejected e"
    | "fetchTranscript ev (field b ''url'') = Resolved None"
    | "fetchTranscript ev (field b ''url'') = Resolved (Some [])"
    by blast
  then show ?thesis
    using True
    by cases (simp_all add: summarizeYoutubeVideo_def bd Let_def summarizeYoutubeVideo_catch_def
        console_error_def)
next
  case False
  then show ?thesis by (simp add: summarizeYoutubeVideo_def bd Let_def)
qed

lemma summarizeYoutubeVideo_traces_callAI:
  assumes bd: "body req = Some b"
    and "truthy (field b ''url'')"
    and "fetchTranscript ev (field b ''url'') = Resolved (Some segs)"
    and "segs \<noteq> []"
  shows "outbound (snd (summarizeYoutubeVideo ev req w))
           = outbound (snd (callAI ev (default_to (field b ''model'') (JStr ''deepseek/deepseek-chat-v3-0324:free''))
               (system_user summarizeYoutubeVideo_systemPrompt (JStr (''Transcript: '' @ join '' '' (map seg_text segs))))
               (w\<lparr>fetched := fetched w @ [field b ''url'']\<rparr>)))
       \<and> dispatched (snd (summarizeYoutubeVideo ev req w))
           = dispatched (snd (callAI ev (default_to (field b ''model'') (JStr ''deepseek/deepseek-chat-v3-0324:free''))
               (system_user summarizeYoutubeVideo_systemPrompt (JStr (''Transcript: '' @ join '' '' (map seg_text segs))))
               (w\<lparr>fetched := fetched w @ [field b ''url'']\<rparr>)))"
  using assms
  by (simp add: summarizeYoutubeVideo_def bd Let_def summarizeYoutubeVideo_catch_def console_error_def
      split: prod.splits sum.splits)

lemma new_calls_same: "outbound w' = outbound w \<Longrightarrow> new_calls w w' = []"
  by (simp add: new_calls_def)

lemma new_calls_callAI:
  "outbound w' = outbound (snd (callAI ev mdl msgs w)) \<Longrightarrow>
   new_calls w w' = (if array_includes AVAILABLE_MODELS mdl then [\<lparr>model = mdl, messages = msgs\<rparr>] else [])"
  by (simp add: new_calls_def callAI_outbound)

lemma new_dispatched_same: "dispatched w' = dispatched w \<Longrightarrow> new_dispatched w w' = []"
  by (simp add: new_dispatched_def)

lemma new_dispatched_callAI:
  "dispatched w' = dispatched (snd (callAI ev mdl msgs w)) \<Longrightarrow> new_dispatched w w' = [(mdl, msgs)]"
  by (simp add: new_dispatched_def callAI_dispatched)

lemma system_then_user_system_user [simp]:
  "system_then_user \<lparr>model = mdl, messages = system_user p u\<rparr>"
  by (simp add: system_then_user_def system_user_def)

lemma generateCode_calls_parsed:
  assumes bd: "body req = Some b"
  shows "list_all system_then_user (new_calls w (snd (generateCode ev req w)))"
proof (cases "truthy (field b ''prompt'')")
  case True
  obtain r w1 where c: "callAI ev (default_to (field b ''model'') (JStr ''deepseek/deepseek-chat:free''))
             (system_user generateCode_systemPrompt (field b ''prompt'')) w = (r, w1)"
    by (cases "callAI ev (default_to (field b ''model'') (JStr ''deepseek/deepseek-chat:free''))
             (system_user generateCode_systemPrompt (field b ''prompt'')) w")
  from generateCode_traces [OF bd c True] c
  have "outbound (snd (generateCode ev req w)) = outbound (snd (callAI ev (default_to (field b ''model'') (JStr ''deepseek/deepseek-chat:free''))
             (system_user generateCode_systemPrompt (field b ''prompt'')) w))" by simp
  then show ?thesis by (simp add: new_calls_callAI)
next
  case False
  then show ?thesis by (simp add: generateCode_def bd Let_def new_calls_def)
qed

lemma getMathReasoning_calls_parsed:
  assumes bd: "body req = Some b"
  shows "list_all system_then_user (new_calls w (snd (getMathReasoning ev req w)))"
proof (cases "truthy (field b ''prompt'')")
  case True
  then have "snd (getMathReasoning ev req w) = snd (callAI ev (default_to (field b ''model'') (JStr ''microsoft/phi-4-reasoning-plus:free''))
             (system_user getMathReasoning_systemPrompt (field b ''prompt'')) w)"
    by (simp add: getMathReasoning_def bd Let_def split: prod.splits sum.splits)
  then show ?thesis by (simp add: new_calls_callAI)
next
  case False
  then show ?thesis by (simp add: getMathReasoning_def bd Let_def new_calls_def)
qed

lemma solveCodingTask_calls_parsed:
  assumes bd: "body req = Some b"
  shows "list_all system_then_user (new_calls w (snd (solveCodingTask ev req w)))"
proof (cases "truthy (field b ''prompt'')")
  case True
  then have "snd (solveCodingTask ev req w) = snd (callAI ev (default_to (field b ''model'') (JStr ''thudm/glm-z1-32b:free''))
             (system_user solveCodingTask_systemPrompt (field b ''prompt'')) w)"
    by (simp add: solveCodingTask_def bd Let_def split: prod.splits sum.splits)
  then show ?thesis by (simp add: new_calls_callAI)
next
  case False
  then show ?thesis by (simp add: solveCodingTask_def bd Let_def new_calls_def)
qed

lemma handleChat_calls_parsed:
  assumes bd: "body req = Some b"
  shows "list_all system_then_user (new_calls w (snd (handleChat ev req w)))"
proof (cases "truthy (field b ''prompt'')")
  case True
  then have "snd (handleChat ev req w) = snd (callAI ev (default_to (field b ''model'') (JStr ''qwen/qwen3-32b:free''))
             (system_user handleChat_systemPrompt (field b ''prompt'')) w)"
    by (simp add: handleChat_def bd Let_def split: prod.splits sum.splits)
  then show ?thesis by (simp add: new_calls_callAI)
next
  case False
  then show ?thesis by (simp add: handleChat_def bd Let_def new_calls_def)
qed

lemma getExplainer_calls_parsed:
  assumes bd: "body req = Some b"
  shows "list_all system_then_user (new_calls w (snd (getExplainer ev req w)))"
proof (cases "truthy (field b ''topic'')")
  case True
  then have "snd (getExplainer ev req w) = snd (callAI ev (default_to (field b ''model'') (JStr ''deepseek/deepseek-chat:free''))
             (system_user getExplainer_systemPrompt (field b ''topic'')) w)"
    by (simp add: getExplainer_def bd Let_def split: prod.splits sum.splits)
  then show ?thesis by (simp add: new_calls_callAI)
next
  case False
  then show ?thesis by (simp add: getExplainer_def bd Let_def new_calls_def)
qed

lemma summarizeYoutubeVideo_calls_parsed:
  assumes bd: "body req = Some b"
  shows "list_all system_then_user (new_calls w (snd (summarizeYoutubeVideo ev req w)))"
proof (cases "truthy (field b ''url'')")
  case True
  show ?thesis
  proof (cases "fetchTranscript ev (field b ''url'')")
    case (Rejected e)
    then show ?thesis
      using summarizeYoutubeVideo_traces_none [OF bd, where e = e and w = w] by (simp add: new_calls_same)
  next
    case (Resolved t)
    show ?thesis
    proof (cases "t = None \<or> t = Some []")
      case True
      with Resolved show ?thesis
        using summarizeYoutubeVideo_traces_none [OF bd, where e = undefined and w = w]
        by (auto simp: new_calls_same)
    next
      case False
      then obtain segs where t: "t = Some segs" "segs \<noteq> []" by auto
      let ?w1 = "w\<lparr>fetched := fetched w @ [field b ''url'']\<rparr>"
      have "new_calls ?w1 w' = new_calls w w'" for w'
        by (simp add: new_calls_def)
      moreover note new_calls_callAI
        [OF summarizeYoutubeVideo_traces_callAI [OF bd True Resolved [unfolded t(1)] t(2), of w, THEN conjunct1]]
      ultimately show ?thesis by simp
    qed
  qed
next
  case False
  then show ?thesis
    using summarizeYoutubeVideo_traces_none [OF bd, where e = undefined and w = w] by (simp add: new_calls_same)
qed

lemma generateCode_calls:
  "list_all system_then_user (new_calls w (snd (generateCode ev req w)))"
proof (cases "body req")
  case None
  then show ?thesis by (simp add: generateCode_def new_calls_def)
next
  case (Some b)
  then show ?thesis by (rule generateCode_calls_parsed)
qed

lemma getMathReasoning_calls:
  "list_all system_then_user (new_calls w (snd (getMathReasoning ev req w)))"
proof (cases "body req")
  case None
  then show ?thesis by (simp add: getMathReasoning_def new_calls_def)
next
  case (Some b)
  then show ?thesis by (rule getMathReasoning_calls_parsed)
qed

lemma solveCodingTask_calls:
  "list_all system_then_user (new_calls w (snd (solveCodingTask ev req w)))"
proof (cases "body req")
  case None
  then show ?thesis by (simp add: solveCodingTask_def new_calls_def)
next
  case (Some b)
  then show ?thesis by (rule solveCodingTask_calls_parsed)
qed

lemma handleChat_calls:
  "list_all system_then_user (new_calls w (snd (handleChat ev req w)))"
proof (cases "body req")
  case None
  then show ?thesis by (simp add: handleChat_def new_calls_def)
next
  case (Some b)
  then show ?thesis by (rule handleChat_calls_parsed)
qed

lemma getExplainer_calls:
  "list_all system_then_user (new_calls w (snd (getExplainer ev req w)))"
proof (cases "body req")
  case None
  then show ?thesis by (simp add: getExplainer_def new_calls_def)
next
  case (Some b)
  then show ?thesis by (rule getExplainer_calls_parsed)
qed

lemma summarizeYoutubeVideo_calls:
  "list_all system_then_user (new_calls w (snd (summarizeYoutubeVideo ev req w)))"
proof (cases "body req")
  case None
  then show ?thesis by (simp add: summarizeYoutubeVideo_def new_calls_def)
next
  case (Some b)
  then show ?thesis by (rule summarizeYoutubeVideo_calls_parsed)
qed

lemma imageToText_calls:
  "list_all one_user_with_parts (new_calls w (snd (imageToText ev req w)))"
  by (simp add: imageToText_def Let_def new_calls_def readFileSync_def unlinkSync_def
      imageToText_catch_def console_error_def one_user_with_parts_def vision_parts_def
      vision_content_def
      split: option.splits node.splits promise.splits list.splits sum.splits)

text \<open>
  C9. Every provider call added by one of the six text handlers carries exactly one
  system message followed by exactly one user message; every provider call added by
  \<open>imageToText\<close> carries exactly one user message, whose content is an image reference
  part followed by a text part, and no system message.
\<close>

theorem provider_call_shape:
  "list_all system_then_user (new_calls w (snd (generateCode ev req w)))
   \<and> list_all system_then_user (new_calls w (snd (getMathReasoning ev req w)))
   \<and> list_all system_then_user (new_calls w (snd (solveCodingTask ev req w)))
   \<and> list_all system_then_user (new_calls w (snd (summarizeYoutubeVideo ev req w)))
   \<and> list_all system_then_user (new_calls w (snd (handleChat ev req w)))
   \<and> list_all system_then_user (new_calls w (snd (getExplainer ev req w)))
   \<and> list_all one_user_with_parts (new_calls w (snd (imageToText ev req w)))"
  by (simp add: generateCode_calls getMathReasoning_calls solveCodingTask_calls
      summarizeYoutubeVideo_calls handleChat_calls getExplainer_calls imageToText_calls)

theorem provider_call_shape_witness:
  "new_calls sample_world (snd (getMathReasoning sample_env prompt_request sample_world))
     = [\<lparr>model = JStr ''microsoft/phi-4-reasoning-plus:free'',
         messages = [\<lparr>role = ''system'', content = JStr getMathReasoning_systemPrompt\<rparr>,
                     \<lparr>role = ''user'', content = JStr ''a landing page''\<rparr>]\<rparr>]
   \<and> list_all system_then_user
        (new_calls sample_world (snd (getMathReasoning sample_env prompt_request sample_world)))
   \<and> new_calls sample_world (snd (imageToText sample_env upload_request sample_world))
     = [\<lparr>model = JStr ''qwen/qwen3-32b:free'',
         messages = [\<lparr>role = ''user'',
                      content = JArr [JObj [(''type'', JStr ''image_url''),
                                            (''image_url'', JObj [(''url'', JStr ''data:image/png;base64,UE5H'')])],
                                      JObj [(''type'', JStr ''text''),
                                            (''text'', JStr ''Describe this image in detail.'')]]\<rparr>]\<rparr>]
   \<and> list_all one_user_with_parts
        (new_calls sample_world (snd (imageToText sample_env upload_request sample_world)))"
proof -
  have a: "new_calls sample_world (snd (getMathReasoning sample_env prompt_request sample_world))
     = [\<lparr>model = JStr ''microsoft/phi-4-reasoning-plus:free'',
         messages = [\<lparr>role = ''system'', content = JStr getMathReasoning_systemPrompt\<rparr>,
                     \<lparr>role = ''user'', content = JStr ''a landing page''\<rparr>]\<rparr>]"
    by (simp add: getMathReasoning_def Let_def field_def default_to_def callAI_def system_user_def
        array_includes_def AVAILABLE_MODELS_def new_calls_def sample_defs)
  have b: "new_calls sample_world (snd (imageToText sample_env upload_request sample_world))
     = [\<lparr>model = JStr ''qwen/qwen3-32b:free'',
         messages = [\<lparr>role = ''user'',
                      content = JArr [JObj [(''type'', JStr ''image_url''),
                                            (''image_url'', JObj [(''url'', JStr ''data:image/png;base64,UE5H'')])],
                                      JObj [(''type'', JStr ''text''),
                                            (''text'', JStr ''Describe this image in detail.'')]]\<rparr>]\<rparr>]"
    by (simp add: imageToText_def Let_def readFileSync_def unlinkSync_def vision_content_def
        new_calls_def base64_digit_def base64_alphabet_def sample_defs)
  from provider_call_shape [of sample_world sample_env prompt_request]
       provider_call_shape [of sample_world sample_env upload_request] a b
  show ?thesis by simp
qed

section \<open>Default models\<close>

lemma invalid_model_error_head: "hd (message invalid_model_error) = CHR ''I''"
  by (simp add: invalid_model_error_def)

lemma not_invalid_model_json:
  "hd msg \<noteq> CHR ''I'' \<Longrightarrow> error_json n msg \<noteq> error_json k (message invalid_model_error)"
  using invalid_model_error_head by (auto simp: error_json_def)

lemma ok_json_not_error_key: "key \<noteq> ''error'' \<Longrightarrow> ok_json key v \<noteq> error_json k msg"
  by (simp add: ok_json_def error_json_def)

lemma callAI_allowed_result:
  assumes "array_includes AVAILABLE_MODELS mdl" and "callAI ev mdl msgs w = (Inl e, w1)"
  shows "e = upstream_failure"
  using assms
  by (auto simp: callAI_def Let_def callAI_catch_def array_includes_iff
      split: promise.splits list.splits)

lemma upstream_failure_head: "hd (message upstream_failure) \<noteq> CHR ''I''"
  by (simp add: upstream_failure_def)

lemma mkdirSync_error_head: "mkdirSync p w = Inl e \<Longrightarrow> hd (message e) \<noteq> CHR ''I''"
  by (auto simp: mkdirSync_def split: if_splits option.splits node.splits)

lemma writeFileSync_error_head: "writeFileSync p d w = Inl e \<Longrightarrow> hd (message e) \<noteq> CHR ''I''"
  by (auto simp: writeFileSync_def split: js_value.splits option.splits node.splits)

lemma default_to_absent: "map_of b ''model'' = None \<Longrightarrow> default_to (field b ''model'') d = d"
  by (simp add: field_def default_to_def)

lemma allowed_defaults:
  "array_includes AVAILABLE_MODELS (JStr ''deepseek/deepseek-chat:free'')"
  "array_includes AVAILABLE_MODELS (JStr ''microsoft/phi-4-reasoning-plus:free'')"
  "array_includes AVAILABLE_MODELS (JStr ''thudm/glm-z1-32b:free'')"
  "array_includes AVAILABLE_MODELS (JStr ''deepseek/deepseek-chat-v3-0324:free'')"
  "array_includes AVAILABLE_MODELS (JStr ''qwen/qwen3-32b:free'')"
  by (simp_all add: array_includes_def AVAILABLE_MODELS_def)

text \<open>The shape shared by the handlers that echo the error of callAI.\<close>

lemma echo_handler_not_invalid:
  assumes "array_includes AVAILABLE_MODELS mdl" and "key \<noteq> ''error''"
  shows "fst (case callAI ev mdl msgs w of
                (Inl e, w1) \<Rightarrow> (error_json 500 (message e), w1)
              | (Inr v, w1) \<Rightarrow> (ok_json key v, w1))
         \<noteq> error_json k (message invalid_model_error)"
proof (cases "callAI ev mdl msgs w")
  case (Pair r w1)
  show ?thesis
  proof (cases r)
    case (Inl e)
    with Pair assms(1) have "e = upstream_failure" by (auto dest: callAI_allowed_result)
    with Pair Inl show ?thesis
      by (simp add: not_invalid_model_json upstream_failure_head)
  next
    case (Inr v)
    with Pair assms(2) show ?thesis by (simp add: ok_json_not_error_key)
  qed
qed

lemma echo_handler_snd:
  "snd (case callAI ev mdl msgs w of
                (Inl e, w1) \<Rightarrow> (f e, w1)
              | (Inr v, w1) \<Rightarrow> (g v, w1)) = snd (callAI ev mdl msgs w)"
  by (simp split: prod.splits sum.splits)

lemma generateCode_not_invalid:
  assumes bd: "body req = Some b"
    and om: "map_of b ''model'' = None"
  shows "fst (generateCode ev req w) \<noteq> error_json k (message invalid_model_error)"
proof (cases "truthy (field b ''prompt'')")
  case False
  then show ?thesis by (simp add: generateCode_def bd Let_def not_invalid_model_json)
next
  case True
  let ?mdl = "JStr ''deepseek/deepseek-chat:free''"
  let ?msgs = "system_user generateCode_systemPrompt (field b ''prompt'')"
  note d = default_to_absent [OF om]
  obtain r w1 where c: "callAI ev ?mdl ?msgs w = (r, w1)"
    by (cases "callAI ev ?mdl ?msgs w")
  show ?thesis
  proof (cases r)
    case (Inl e)
    with c have "e = upstream_failure" by (auto dest: callAI_allowed_result [OF allowed_defaults(1)])
    with True c Inl show ?thesis
      by (simp add: generateCode_def bd Let_def d not_invalid_model_json upstream_failure_head)
  next
    case (Inr code)
    let ?d = "path_join (dirname ev) [''..'', ''generated_code'']"
    let ?p = "path_join ?d [''index.html'']"
    show ?thesis
    proof (cases "if \<not> existsSync w1 ?d then mkdirSync ?d w1 else Inr w1")
      case (Inl e)
      then have "hd (message e) \<noteq> CHR ''I''"
        by (auto split: if_splits dest: mkdirSync_error_head)
      with True c Inr Inl show ?thesis
        by (simp add: generateCode_def bd Let_def d not_invalid_model_json del: path_join.simps)
    next
      case mk: (Inr w2)
      show ?thesis
      proof (cases "writeFileSync ?p code w2")
        case (Inl e)
        then have "hd (message e) \<noteq> CHR ''I''" by (rule writeFileSync_error_head)
        with True c Inr mk Inl show ?thesis
          by (simp add: generateCode_def bd Let_def d not_invalid_model_json del: path_join.simps)
      next
        case wr: (Inr w3)
        from True c Inr mk wr have "generateCode ev req w = download ev ?p ''index.html'' w3"
          by (simp add: generateCode_def bd Let_def d del: path_join.simps)
        then show ?thesis by (simp add: download_not_json error_json_def)
      qed
    qed
  qed
qed

lemma summarizeYoutubeVideo_not_invalid:
  "fst (summarizeYoutubeVideo ev req w) \<noteq> error_json k (message invalid_model_error)"
proof -
  have "fst (summarizeYoutubeVideo ev req w)
          \<in> {error_json 400 ''YouTube URL is required.'', no_transcript,
             error_json 500 ''Failed to summarize YouTube video. Please ensure the URL is correct and the video has a transcript.''}
        \<or> (\<exists>v. fst (summarizeYoutubeVideo ev req w) = ok_json ''summary'' v)
        \<or> (\<exists>e. fst (summarizeYoutubeVideo ev req w) = Unhandled e)"
    by (auto simp add: summarizeYoutubeVideo_def Let_def summarizeYoutubeVideo_catch_def
        split: promise.splits option.splits prod.splits sum.splits)
  moreover have "Unhandled e \<noteq> error_json k (message invalid_model_error)" for e
    by (simp add: error_json_def)
  ultimately show ?thesis
    by (auto simp: no_transcript_def not_invalid_model_json ok_json_not_error_key)
qed

lemma new_dispatched_models_callAI:
  "dispatched w' = dispatched (snd (callAI ev mdl msgs w)) \<Longrightarrow>
   set (map fst (new_dispatched w w')) \<subseteq> {mdl}"
  by (simp add: new_dispatched_callAI)

lemma new_dispatched_models_same:
  "dispatched w' = dispatched w \<Longrightarrow> set (map fst (new_dispatched w w')) \<subseteq> {mdl}"
  by (simp add: new_dispatched_same)

lemma generateCode_default:
  assumes bd: "body req = Some b"
    and om: "map_of b ''model'' = None"
  shows "set (map fst (new_dispatched w (snd (generateCode ev req w)))) \<subseteq> {JStr ''deepseek/deepseek-chat:free''}"
proof (cases "truthy (field b ''prompt'')")
  case True
  obtain r w1 where c: "callAI ev (default_to (field b ''model'') (JStr ''deepseek/deepseek-chat:free''))
             (system_user generateCode_systemPrompt (field b ''prompt'')) w = (r, w1)"
    by (cases "callAI ev (default_to (field b ''model'') (JStr ''deepseek/deepseek-chat:free''))
             (system_user generateCode_systemPrompt (field b ''prompt'')) w")
  from generateCode_traces [OF bd c True] c
  have "dispatched (snd (generateCode ev req w)) = dispatched (snd (callAI ev (default_to (field b ''model'') (JStr ''deepseek/deepseek-chat:free''))
             (system_user generateCode_systemPrompt (field b ''prompt'')) w))" by simp
  then show ?thesis
    unfolding default_to_absent [OF om] by (rule new_dispatched_models_callAI)
next
  case False
  then show ?thesis by (simp add: generateCode_def bd Let_def new_dispatched_def)
qed

lemma getMathReasoning_default:
  assumes bd: "body req = Some b"
    and om: "map_of b ''model'' = None"
  shows "set (map fst (new_dispatched w (snd (getMathReasoning ev req w)))) \<subseteq> {JStr ''microsoft/phi-4-reasoning-plus:free''}
       \<and> fst (getMathReasoning ev req w) \<noteq> error_json k (message invalid_model_error)"
proof (cases "truthy (field b ''prompt'')")
  case True
  then show ?thesis
    by (simp add: getMathReasoning_def bd Let_def default_to_absent [OF om] echo_handler_snd
        callAI_dispatched new_dispatched_def echo_handler_not_invalid allowed_defaults)
next
  case False
  then show ?thesis
    by (simp add: getMathReasoning_def bd Let_def new_dispatched_def not_invalid_model_json)
qed

lemma solveCodingTask_default:
  assumes bd: "body req = Some b"
    and om: "map_of b ''model'' = None"
  shows "set (map fst (new_dispatched w (snd (solveCodingTask ev req w)))) \<subseteq> {JStr ''thudm/glm-z1-32b:free''}
       \<and> fst (solveCodingTask ev req w) \<noteq> error_json k (message invalid_model_error)"
proof (cases "truthy (field b ''prompt'')")
  case True
  then show ?thesis
    by (simp add: solveCodingTask_def bd Let_def default_to_absent [OF om] echo_handler_snd
        callAI_dispatched new_dispatched_def echo_handler_not_invalid allowed_defaults)
next
  case False
  then show ?thesis
    by (simp add: solveCodingTask_def bd Let_def new_dispatched_def not_invalid_model_json)
qed

lemma handleChat_default:
  assumes bd: "body req = Some b"
    and om: "map_of b ''model'' = None"
  shows "set (map fst (new_dispatched w (snd (handleChat ev req w)))) \<subseteq> {JStr ''qwen/qwen3-32b:free''}
       \<and> fst (handleChat ev req w) \<noteq> error_json k (message invalid_model_error)"
proof (cases "truthy (field b ''prompt'')")
  case True
  then show ?thesis
    by (simp add: handleChat_def bd Let_def default_to_absent [OF om] echo_handler_snd
        callAI_dispatched new_dispatched_def echo_handler_not_invalid allowed_defaults)
next
  case False
  then show ?thesis
    by (simp add: handleChat_def bd Let_def new_dispatched_def not_invalid_model_json)
qed

lemma getExplainer_default:
  assumes bd: "body req = Some b"
    and om: "map_of b ''model'' = None"
  shows "set (map fst (new_dispatched w (snd (getExplainer ev req w)))) \<subseteq> {JStr ''deepseek/deepseek-chat:free''}
       \<and> fst (getExplainer ev req w) \<noteq> error_json k (message invalid_model_error)"
proof (cases "truthy (field b ''topic'')")
  case True
  then show ?thesis
    by (simp add: getExplainer_def bd Let_def default_to_absent [OF om] echo_handler_snd
        callAI_dispatched new_dispatched_def echo_handler_not_invalid allowed_defaults)
next
  case False
  then show ?thesis
    by (simp add: getExplainer_def bd Let_def new_dispatched_def not_invalid_model_json)
qed

lemma summarizeYoutubeVideo_default:
  assumes bd: "body req = Some b"
    and om: "map_of b ''model'' = None"
  shows "set (map fst (new_dispatched w (snd (summarizeYoutubeVideo ev req w)))) \<subseteq> {JStr ''deepseek/deepseek-chat-v3-0324:free''}"
proof (cases "truthy (field b ''url'')")
  case True
  show ?thesis
  proof (cases "fetchTranscript ev (field b ''url'')")
    case (Rejected e)
    then show ?thesis
      using summarizeYoutubeVideo_traces_none [OF bd, where e = e and w = w] by (simp add: new_dispatched_same)
  next
    case (Resolved t)
    show ?thesis
    proof (cases "t = None \<or> t = Some []")
      case True
      with Resolved show ?thesis
        using summarizeYoutubeVideo_traces_none [OF bd, where e = undefined and w = w]
        by (auto simp: new_dispatched_same)
    next
      case False
      then obtain segs where t: "t = Some segs" "segs \<noteq> []" by auto
      let ?w1 = "w\<lparr>fetched := fetched w @ [field b ''url'']\<rparr>"
      have "new_dispatched ?w1 w' = new_dispatched w w'" for w'
        by (simp add: new_dispatched_def)
      moreover note new_dispatched_models_callAI
        [OF summarizeYoutubeVideo_traces_callAI [OF bd True Resolved [unfolded t(1)] t(2), of w, THEN conjunct2]]
      ultimately show ?thesis by (simp add: default_to_absent [OF om])
    qed
  qed
next
  case False
  then show ?thesis
    using summarizeYoutubeVideo_traces_none [OF bd, where e = undefined and w = w] by (simp add: new_dispatched_same)
qed

text \<open>
  C10. The default model of every handler that reads a \<open>model\<close> field is in
  \<open>AVAILABLE_MODELS\<close>; a request that names no model (its body has no \<open>model\<close> key, or
  it has no body) invokes \<open>callAI\<close> with that default only, and its answer is never
  the invalid-model error.
\<close>

theorem omitted_model_uses_allowed_default:
  assumes om: "omitted req ''model''"
  shows "set [''deepseek/deepseek-chat:free'', ''microsoft/phi-4-reasoning-plus:free'',
              ''thudm/glm-z1-32b:free'', ''deepseek/deepseek-chat-v3-0324:free'',
              ''qwen/qwen3-32b:free''] \<subseteq> set AVAILABLE_MODELS
       \<and> set (map fst (new_dispatched w (snd (generateCode ev req w)))) \<subseteq> {JStr ''deepseek/deepseek-chat:free''}
       \<and> set (map fst (new_dispatched w (snd (getMathReasoning ev req w)))) \<subseteq> {JStr ''microsoft/phi-4-reasoning-plus:free''}
       \<and> set (map fst (new_dispatched w (snd (solveCodingTask ev req w)))) \<subseteq> {JStr ''thudm/glm-z1-32b:free''}
       \<and> set (map fst (new_dispatched w (snd (summarizeYoutubeVideo ev req w)))) \<subseteq> {JStr ''deepseek/deepseek-chat-v3-0324:free''}
       \<and> set (map fst (new_dispatched w (snd (handleChat ev req w)))) \<subseteq> {JStr ''qwen/qwen3-32b:free''}
       \<and> set (map fst (new_dispatched w (snd (getExplainer ev req w)))) \<subseteq> {JStr ''deepseek/deepseek-chat:free''}
       \<and> fst (generateCode ev req w) \<noteq> error_json k (message invalid_model_error)
       \<and> fst (getMathReasoning ev req w) \<noteq> error_json k (message invalid_model_error)
       \<and> fst (solveCodingTask ev req w) \<noteq> error_json k (message invalid_model_error)
       \<and> fst (summarizeYoutubeVideo ev req w) \<noteq> error_json k (message invalid_model_error)
       \<and> fst (handleChat ev req w) \<noteq> error_json k (message invalid_model_error)
       \<and> fst (getExplainer ev req w) \<noteq> error_json k (message invalid_model_error)"
proof -
  have lits: "set [''deepseek/deepseek-chat:free'', ''microsoft/phi-4-reasoning-plus:free'',
              ''thudm/glm-z1-32b:free'', ''deepseek/deepseek-chat-v3-0324:free'',
              ''qwen/qwen3-32b:free''] \<subseteq> set AVAILABLE_MODELS"
    by (simp add: AVAILABLE_MODELS_def)
  show ?thesis
  proof (cases "body req")
    case None
    from lits show ?thesis
      by (simp add: missing_body_unhandled [OF None] new_dispatched_def error_json_def)
  next
    case (Some b)
    with om have m: "map_of b ''model'' = None" by (simp add: omitted_def)
    from lits generateCode_default [OF Some m, of w ev] generateCode_not_invalid [OF Some m, of ev w k]
      getMathReasoning_default [OF Some m, of w ev k] solveCodingTask_default [OF Some m, of w ev k]
      summarizeYoutubeVideo_default [OF Some m, of w ev] summarizeYoutubeVideo_not_invalid [of ev req w k]
      handleChat_default [OF Some m, of w ev k] getExplainer_default [OF Some m, of w ev k]
    show ?thesis by simp
  qed
qed

theorem omitted_model_uses_allowed_default_witness:
  "omitted all_fields_request ''model''
   \<and> map fst (new_dispatched sample_world (snd (generateCode sample_env all_fields_request sample_world)))
       = [JStr ''deepseek/deepseek-chat:free'']
   \<and> map fst (new_dispatched sample_world (snd (summarizeYoutubeVideo sample_env all_fields_request sample_world)))
       = [JStr ''deepseek/deepseek-chat-v3-0324:free'']
   \<and> ''deepseek/deepseek-chat:free'' \<in> set AVAILABLE_MODELS
   \<and> ''deepseek/deepseek-chat-v3-0324:free'' \<in> set AVAILABLE_MODELS
   \<and> fst (generateCode sample_env all_fields_request sample_world) \<noteq> error_json 500 (message invalid_model_error)
   \<and> fst (getMathReasoning provider_down_env all_fields_request sample_world) \<noteq> error_json 500 (message invalid_model_error)
   \<and> omitted no_body_request ''model''
   \<and> fst (handleChat sample_env no_body_request sample_world) \<noteq> error_json 500 (message invalid_model_error)"
proof -
  have a: "omitted all_fields_request ''model''"
    by (simp add: omitted_def all_fields_request_def all_fields_body_def)
  have n: "omitted no_body_request ''model''"
    by (simp add: omitted_def no_body_request_def)
  have b: "map fst (new_dispatched sample_world (snd (summarizeYoutubeVideo sample_env all_fields_request sample_world)))
       = [JStr ''deepseek/deepseek-chat-v3-0324:free'']"
    by (simp add: summarizeYoutubeVideo_def Let_def field_def default_to_def callAI_def
        array_includes_def AVAILABLE_MODELS_def new_dispatched_def ok_json_def sample_defs)
  have c: "map fst (new_dispatched sample_world (snd (generateCode sample_env all_fields_request sample_world)))
       = [JStr ''deepseek/deepseek-chat:free'']"
    by (simp add: generateCode_def Let_def field_def default_to_def callAI_def
        array_includes_def AVAILABLE_MODELS_def new_dispatched_def existsSync_def mkdirSync_def
        writeFileSync_def download_def readFileSync_def unlinkSync_def sample_defs)
  from omitted_model_uses_allowed_default [OF a, of sample_world sample_env 500]
       omitted_model_uses_allowed_default [OF a, of sample_world provider_down_env 500]
       omitted_model_uses_allowed_default [OF n, of sample_world sample_env 500] a n b c
  show ?thesis by simp
qed

end
